theory Spec2Isabelle
  imports Complex_Main
begin

section \<open>JavaScript strings\<close>

text \<open>
  A JavaScript string is a sequence of UTF-16 code units; a code unit is a
  natural number here. \<open>js\<close> turns an ASCII literal into its code units.
  The rupee sign is the single code unit 8377.
\<close>

type_synonym jsstring = "nat list"

definition js :: "string \<Rightarrow> jsstring" where
  "js s = map of_char s"

definition rupee :: nat where
  "rupee = 8377"

text \<open>White space as \<open>String.prototype.trim\<close> and the class \<open>\s\<close> see it.\<close>

definition isSpace :: "nat \<Rightarrow> bool" where
  "isSpace c = (c \<in> set [9, 10, 11, 12, 13, 32, 160, 5760, 8232, 8233, 8239, 8287, 12288, 65279]
                \<or> (8192 \<le> c \<and> c \<le> 8202))"

definition isDigit :: "nat \<Rightarrow> bool" where
  "isDigit c = (48 \<le> c \<and> c \<le> 57)"

definition trim :: "jsstring \<Rightarrow> jsstring" where
  "trim s = rev (dropWhile isSpace (rev (dropWhile isSpace s)))"

text \<open>
  \<open>toLowerCase\<close>: the letters A-Z go to a-z. Code units outside ASCII are
  left as they are: the Unicode case tables are not part of the repository.
\<close>

definition lowerUnit :: "nat \<Rightarrow> nat" where
  "lowerUnit c = (if 65 \<le> c \<and> c \<le> 90 then c + 32 else c)"

definition toLowerCase :: "jsstring \<Rightarrow> jsstring" where
  "toLowerCase s = map lowerUnit s"

definition startsWith :: "jsstring \<Rightarrow> jsstring \<Rightarrow> bool" where
  "startsWith s p = (take (length p) s = p)"

definition endsWith :: "jsstring \<Rightarrow> jsstring \<Rightarrow> bool" where
  "endsWith s p = (length p \<le> length s \<and> drop (length s - length p) s = p)"

fun includesStr :: "jsstring \<Rightarrow> jsstring \<Rightarrow> bool" where
  "includesStr [] p = (p = [])"
| "includesStr (c # cs) p = (startsWith (c # cs) p \<or> includesStr cs p)"

text \<open>\<open>text.includes('keyword')\<close> for an ASCII keyword.\<close>

definition has :: "jsstring \<Rightarrow> string \<Rightarrow> bool" where
  "has t kw = includesStr t (js kw)"

text \<open>\<open>s.split(sep)\<close> for a separator of one code unit.\<close>

fun splitOn :: "nat \<Rightarrow> jsstring \<Rightarrow> jsstring list" where
  "splitOn sep [] = [[]]"
| "splitOn sep (c # cs) =
     (if c = sep then [] # splitOn sep cs
      else (case splitOn sep cs of p # ps \<Rightarrow> (c # p) # ps | [] \<Rightarrow> [[c]]))"

section \<open>Regular expressions\<close>

text \<open>
  The regular expressions of the source are kept as syntax trees and run by
  a backtracking matcher that tries the alternatives in the order
  JavaScript does. \<open>Chars\<close> is a character class given by inclusive
  ranges of code units; \<open>Star\<close> is the greedy \<open>*\<close>, \<open>LazyStar\<close>
  is \<open>*?\<close>; an iteration that consumes nothing is rejected, as the
  language specifies. A match state is the position reached, the rest of the
  input from there, and the capture groups recorded so far as
  (group, start, end). \<open>rmatch\<close> lists the ways a regex matches from a
  state, best first; \<open>rmatchAll\<close> continues from each state of a list;
  \<open>rmatchMore r n\<close> repeats \<open>r\<close> from the states that left fewer than
  \<open>n\<close> code units.
\<close>

datatype regex =
    Chars "(nat \<times> nat) list"
  | AnyChar
  | Bol
  | Eol
  | Eps
  | Cat regex regex
  | Alt regex regex
  | Star regex
  | LazyStar regex
  | Group nat regex

type_synonym caps = "(nat \<times> nat \<times> nat) list"
type_synonym mstate = "nat \<times> jsstring \<times> caps"

definition inRanges :: "(nat \<times> nat) list \<Rightarrow> nat \<Rightarrow> bool" where
  "inRanges rs c = list_ex (\<lambda>(lo, hi). lo \<le> c \<and> c \<le> hi) rs"

fun closeGroup :: "nat \<Rightarrow> nat \<Rightarrow> mstate \<Rightarrow> mstate" where
  "closeGroup n i (j, s, c) = (j, s, (n, i, j) # c)"

function rmatch :: "regex \<Rightarrow> mstate \<Rightarrow> mstate list"
  and rmatchAll :: "regex \<Rightarrow> mstate list \<Rightarrow> mstate list"
  and rmatchMore :: "regex \<Rightarrow> nat \<Rightarrow> mstate list \<Rightarrow> mstate list"
where
  "rmatch (Chars rs) (i, [], c) = []"
| "rmatch (Chars rs) (i, x # xs, c) = (if inRanges rs x then [(Suc i, xs, c)] else [])"
| "rmatch AnyChar (i, [], c) = []"
| "rmatch AnyChar (i, x # xs, c) = [(Suc i, xs, c)]"
| "rmatch Bol (i, s, c) = (if i = 0 then [(i, s, c)] else [])"
| "rmatch Eol (i, s, c) = (if s = [] then [(i, s, c)] else [])"
| "rmatch Eps (i, s, c) = [(i, s, c)]"
| "rmatch (Cat a b) (i, s, c) = rmatchAll b (rmatch a (i, s, c))"
| "rmatch (Alt a b) (i, s, c) = rmatch a (i, s, c) @ rmatch b (i, s, c)"
| "rmatch (Star a) (i, s, c) = rmatchMore (Star a) (length s) (rmatch a (i, s, c)) @ [(i, s, c)]"
| "rmatch (LazyStar a) (i, s, c) = (i, s, c) # rmatchMore (LazyStar a) (length s) (rmatch a (i, s, c))"
| "rmatch (Group n a) (i, s, c) = map (closeGroup n i) (rmatch a (i, s, c))"
| "rmatchAll r [] = []"
| "rmatchAll r (st # sts) = rmatch r st @ rmatchAll r sts"
| "rmatchMore r n [] = []"
| "rmatchMore r n ((j, s', c') # sts) =
     (if length s' < n then rmatch r (j, s', c') else []) @ rmatchMore r n sts"
  by pat_completeness auto
termination
  by (relation "inv_image (less_than <*lex*> less_than <*lex*> less_than)
        (\<lambda>x. case x of
            Inl (r, (i, s, c)) \<Rightarrow> (2 * size r, 2 * length s + 1, 0)
          | Inr (Inl (r, sts)) \<Rightarrow> (2 * size r + 1, 0, length sts)
          | Inr (Inr (r, n, sts)) \<Rightarrow> (2 * size r, 2 * n, length sts))") auto

text \<open>The leftmost match at or after position \<open>i\<close>; \<open>s\<close> is the input from \<open>i\<close> on.\<close>

fun search :: "regex \<Rightarrow> nat \<Rightarrow> jsstring \<Rightarrow> (nat \<times> mstate) option" where
  "search r i [] = (case rmatch r (i, [], []) of m # ms \<Rightarrow> Some (i, m) | [] \<Rightarrow> None)"
| "search r i (x # xs) =
     (case rmatch r (i, x # xs, []) of m # ms \<Rightarrow> Some (i, m) | [] \<Rightarrow> search r (Suc i) xs)"

text \<open>\<open>s.replace(/r/, repl)\<close> without the global flag: the first match only.\<close>

definition replaceFirst :: "regex \<Rightarrow> jsstring \<Rightarrow> jsstring \<Rightarrow> jsstring" where
  "replaceFirst r repl s =
     (case search r 0 s of None \<Rightarrow> s
      | Some (k, (j, rest, c)) \<Rightarrow> take k s @ repl @ rest)"

text \<open>Building blocks for the regex literals of the source.\<close>

definition chr :: "nat \<Rightarrow> regex" where
  "chr c = Chars [(c, c)]"

definition lit :: "string \<Rightarrow> regex" where
  "lit s = foldr (\<lambda>ch r. Cat (chr (of_char ch)) r) s Eps"

definition chri :: "nat \<Rightarrow> regex" where
  "chri c = (if 65 \<le> c \<and> c \<le> 90 then Chars [(c, c), (c + 32, c + 32)]
             else if 97 \<le> c \<and> c \<le> 122 then Chars [(c - 32, c - 32), (c, c)]
             else Chars [(c, c)])"

definition liti :: "string \<Rightarrow> regex" where
  "liti s = foldr (\<lambda>ch r. Cat (chri (of_char ch)) r) s Eps"

definition spaceCls :: regex where
  "spaceCls = Chars [(9, 13), (32, 32), (160, 160), (5760, 5760), (8192, 8202), (8232, 8233),
                     (8239, 8239), (8287, 8287), (12288, 12288), (65279, 65279)]"

definition digitCls :: regex where
  "digitCls = Chars [(48, 57)]"

definition wordCls :: regex where
  "wordCls = Chars [(48, 57), (65, 90), (95, 95), (97, 122)]"

definition alphaCls :: regex where
  "alphaCls = Chars [(65, 90), (97, 122)]"

definition oneOrMore :: "regex \<Rightarrow> regex" where
  "oneOrMore r = Cat r (Star r)"

definition optional :: "regex \<Rightarrow> regex" where
  "optional r = Alt r Eps"

fun alts :: "regex list \<Rightarrow> regex" where
  "alts [] = Eps"
| "alts [r] = r"
| "alts (r # rs) = Alt r (alts rs)"

fun cats :: "regex list \<Rightarrow> regex" where
  "cats [] = Eps"
| "cats [r] = r"
| "cats (r # rs) = Cat r (cats rs)"

text \<open>
  \<open>s.replace(/r/g, repl)\<close>: every match, left to right. The scan walks
  the input; \<open>skip\<close> counts the code units still inside the last match.
  After an empty match the scan moves one code unit on, which is copied.
\<close>

fun replaceAllFrom :: "regex \<Rightarrow> jsstring \<Rightarrow> nat \<Rightarrow> nat \<Rightarrow> jsstring \<Rightarrow> jsstring" where
  "replaceAllFrom r repl skip i [] =
     (if 0 < skip then []
      else (case rmatch r (i, [], []) of [] \<Rightarrow> [] | m # ms \<Rightarrow> repl))"
| "replaceAllFrom r repl skip i (x # xs) =
     (if 0 < skip then replaceAllFrom r repl (skip - 1) (Suc i) xs
      else (case rmatch r (i, x # xs, []) of
              [] \<Rightarrow> x # replaceAllFrom r repl 0 (Suc i) xs
            | m # ms \<Rightarrow>
                if fst m = i then repl @ x # replaceAllFrom r repl 0 (Suc i) xs
                else repl @ replaceAllFrom r repl (fst m - i - 1) (Suc i) xs))"

definition replaceAll :: "regex \<Rightarrow> jsstring \<Rightarrow> jsstring \<Rightarrow> jsstring" where
  "replaceAll r repl s = replaceAllFrom r repl 0 0 s"

section \<open>Numbers\<close>

text \<open>
  A JavaScript number: NaN, a finite value or an infinity. The finite values
  are kept exact (the rounding of a decimal literal to a binary64 double is
  not modelled, and \<open>-0\<close> is \<open>0\<close>).
\<close>

datatype number = NaN | Fin rat | PInf | NInf

fun absN :: "number \<Rightarrow> number" where
  "absN NaN = NaN"
| "absN (Fin q) = Fin \<bar>q\<bar>"
| "absN PInf = PInf"
| "absN NInf = PInf"

fun negN :: "number \<Rightarrow> number" where
  "negN NaN = NaN"
| "negN (Fin q) = Fin (- q)"
| "negN PInf = NInf"
| "negN NInf = PInf"

text \<open>Truthiness of a number: everything but zero and NaN.\<close>

fun truthyN :: "number \<Rightarrow> bool" where
  "truthyN NaN = False"
| "truthyN (Fin q) = (q \<noteq> 0)"
| "truthyN PInf = True"
| "truthyN NInf = True"

definition digitsValue :: "jsstring \<Rightarrow> nat" where
  "digitsValue ds = foldl (\<lambda>a c. 10 * a + (c - 48)) 0 ds"

text \<open>
  \<open>parseFloat\<close>: leading white space is skipped, then the longest prefix
  that is a decimal literal is read: a sign, then \<open>Infinity\<close> or digits
  with an optional fraction and an optional exponent. NaN when there is none.
\<close>

definition exponentPart :: "jsstring \<Rightarrow> int" where
  "exponentPart r =
     (case r of
        [] \<Rightarrow> 0
      | e # t \<Rightarrow>
          if e = 101 \<or> e = 69 then
            (case t of
               [] \<Rightarrow> 0
             | sg # u \<Rightarrow>
                 if sg = 45 then (if takeWhile isDigit u = [] then 0 else - int (digitsValue (takeWhile isDigit u)))
                 else if sg = 43 then (if takeWhile isDigit u = [] then 0 else int (digitsValue (takeWhile isDigit u)))
                 else int (digitsValue (takeWhile isDigit t)))
          else 0)"

definition scale10 :: "rat \<Rightarrow> int \<Rightarrow> rat" where
  "scale10 q e = (if 0 \<le> e then q * 10 ^ nat e else q / 10 ^ nat (- e))"

definition unsignedLiteral :: "jsstring \<Rightarrow> number" where
  "unsignedLiteral s =
     (if startsWith s (js ''Infinity'') then PInf
      else
        let ip = takeWhile isDigit s;
            r1 = dropWhile isDigit s;
            fp = (case r1 of [] \<Rightarrow> [] | d # t \<Rightarrow> if d = 46 then takeWhile isDigit t else []);
            r2 = (case r1 of [] \<Rightarrow> [] | d # t \<Rightarrow> if d = 46 then dropWhile isDigit t else r1)
        in if ip = [] \<and> fp = [] then NaN
           else Fin (scale10 (of_nat (digitsValue (ip @ fp))) (exponentPart r2 - int (length fp))))"

definition parseFloat :: "jsstring \<Rightarrow> number" where
  "parseFloat str =
     (case dropWhile isSpace str of
        [] \<Rightarrow> NaN
      | c # cs \<Rightarrow>
          if c = 45 then negN (unsignedLiteral cs)
          else if c = 43 then unsignedLiteral cs
          else unsignedLiteral (c # cs))"

text \<open>
  \<open>parseInt\<close> without a radix: white space, a sign, \<open>0x\<close> for base 16,
  then the longest run of digits; NaN when there is none.
\<close>

definition isHexDigit :: "nat \<Rightarrow> bool" where
  "isHexDigit c = ((48 \<le> c \<and> c \<le> 57) \<or> (97 \<le> c \<and> c \<le> 102) \<or> (65 \<le> c \<and> c \<le> 70))"

definition hexDigitValue :: "nat \<Rightarrow> nat" where
  "hexDigitValue c = (if c \<le> 57 then c - 48 else if 97 \<le> c then c - 87 else c - 55)"

definition hexValue :: "jsstring \<Rightarrow> nat" where
  "hexValue ds = foldl (\<lambda>a c. 16 * a + hexDigitValue c) 0 ds"

definition unsignedInt :: "jsstring \<Rightarrow> int option" where
  "unsignedInt s =
     (if startsWith s (js ''0x'') \<or> startsWith s (js ''0X'') then
        (let ds = takeWhile isHexDigit (drop 2 s)
         in if ds = [] then None else Some (int (hexValue ds)))
      else
        (let ds = takeWhile isDigit s
         in if ds = [] then None else Some (int (digitsValue ds))))"

definition parseInt :: "jsstring \<Rightarrow> int option" where
  "parseInt str =
     (case dropWhile isSpace str of
        [] \<Rightarrow> None
      | c # cs \<Rightarrow>
          if c = 45 then map_option uminus (unsignedInt cs)
          else if c = 43 then unsignedInt cs
          else unsignedInt (c # cs))"

section \<open>Amount parsing\<close>

definition charsOf :: "nat list \<Rightarrow> regex" where
  "charsOf cs = Chars (map (\<lambda>c. (c, c)) cs)"

definition euro :: nat where
  "euro = 8364"

definition pound :: nat where
  "pound = 163"

text \<open>
  \<open>parseAmount\<close> of \<open>part_005\<close>, for a string argument; \<open>None\<close> is
  \<open>null\<close>. The three
  replacements are \<open>/[(rupee)$(euro)(pound),]/g\<close>, \<open>/\s+/g\<close> and \<open>/[()DrCr]/g\<close>; the
  last is a character class, so it deletes every \<open>(\<close>, \<open>)\<close>, \<open>D\<close>,
  \<open>r\<close> and \<open>C\<close>.
\<close>

definition parseAmount :: "jsstring \<Rightarrow> number option" where
  "parseAmount amountStr =
     (if amountStr = [] then None
      else
        let cleanAmount = trim (replaceAll (oneOrMore spaceCls) []
                            (replaceAll (charsOf (rupee # js ''$'' @ [euro, pound] @ js '','')) [] amountStr));
            isNegative = (has cleanAmount ''-'' \<or> has cleanAmount ''('' \<or> has cleanAmount ''Dr'');
            numericAmount = parseFloat (replaceAll (charsOf (js ''()DrCr'')) [] cleanAmount)
        in if numericAmount = NaN then None
           else Some (if isNegative then negN (absN numericAmount) else absN numericAmount))"

text \<open>\<open>parseAmount\<close> of \<open>UniversalUPIProcessor.tsx\<close>, for a string argument.\<close>

definition currencyWord :: regex where
  "currencyWord = alts [Cat (liti ''rs'') (optional (chr 46)), liti ''inr'', chr rupee]"

definition parseAmount_Universal :: "jsstring \<Rightarrow> number option" where
  "parseAmount_Universal amountStr =
     (if amountStr = [] then None
      else
        let cleanAmountStr =
              replaceFirst (cats [Bol, Group 1 (alts [liti ''Amount'', liti ''Amt'', liti ''Debit'', liti ''Credit'']),
                                  chr 58, Star spaceCls]) [] (trim amountStr)
        in if cleanAmountStr = [] then None
           else
             let s1 = replaceFirst (cats [Bol, Group 1 currencyWord, Star spaceCls]) [] cleanAmountStr;
                 s2 = replaceFirst (cats [Star spaceCls, Group 1 currencyWord, Eol]) [] s1;
                 s3 = replaceFirst (cats [Star spaceCls, liti ''cr'', optional (chr 46), Eol]) [] s2;
                 s4 = replaceFirst (cats [Star spaceCls, liti ''dr'', optional (chr 46), Eol]) [] s3;
                 s5 = replaceFirst (cats [Star spaceCls,
                        Group 1 (alts [liti ''debit'', liti ''credit'', liti ''paid'', liti ''received'',
                                       liti ''balance'', liti ''amount'']), Eol]) [] s4;
                 processedStr = trim s5;
                 isNegative = (has processedStr ''dr'' \<or> has processedStr ''debit'' \<or>
                               has processedStr ''-'' \<or> has processedStr ''('');
                 processedStr' = (if isNegative
                    then trim (replaceAll (Alt (liti ''dr'') (liti ''debit'')) []
                                 (replaceAll (charsOf (js ''()'')) [] processedStr))
                    else processedStr);
                 numericStr = replaceAll (chr 44) [] processedStr';
                 amount = parseFloat numericStr
             in if amount = NaN then None
                else Some (if isNegative then negN (absN amount) else absN amount))"

section \<open>The categorizers\<close>

text \<open>The \<open>Category\<close> type of \<open>types/index.ts\<close>.\<close>

definition Category :: "jsstring list" where
  "Category = map js [''Food'', ''Travel'', ''Shopping'', ''Bills'', ''Entertainment'',
                      ''Health'', ''Education'', ''Investment'', ''Miscellaneous'']"

text \<open>
  The keyword chain shared by \<open>fileProcessor\<close> (\<open>part_005\<close>), \<open>PhonePeProcessor\<close>
  and \<open>GPayProcessor\<close>: the three copies differ only in the text they lower-case
  and in the value returned when no keyword is found.
\<close>

definition keywordCategory :: "jsstring \<Rightarrow> jsstring \<Rightarrow> jsstring" where
  "keywordCategory text fallback =
    (if has text ''swiggy'' \<or> has text ''zomato'' \<or> has text ''restaurant'' \<or>
        has text ''food'' \<or> has text ''cafe'' \<or> has text ''hotel'' \<or>
        has text ''mcdonalds'' \<or> has text ''starbucks'' \<or> has text ''dominos''
     then js ''Food''
     else if has text ''uber'' \<or> has text ''ola'' \<or> has text ''railway'' \<or>
        has text ''flight'' \<or> has text ''bus'' \<or> has text ''metro'' \<or>
        has text ''petrol'' \<or> has text ''fuel'' \<or> has text ''parking''
     then js ''Travel''
     else if has text ''amazon'' \<or> has text ''flipkart'' \<or> has text ''shopping'' \<or>
        has text ''mall'' \<or> has text ''store'' \<or> has text ''market''
     then js ''Shopping''
     else if has text ''electricity'' \<or> has text ''water'' \<or> has text ''gas'' \<or>
        has text ''airtel'' \<or> has text ''jio'' \<or> has text ''bill'' \<or>
        has text ''recharge'' \<or> has text ''mobile''
     then js ''Bills''
     else if has text ''movie'' \<or> has text ''cinema'' \<or> has text ''netflix'' \<or>
        has text ''spotify'' \<or> has text ''game'' \<or> has text ''concert''
     then js ''Entertainment''
     else if has text ''pharmacy'' \<or> has text ''hospital'' \<or> has text ''doctor'' \<or>
        has text ''medical'' \<or> has text ''health''
     then js ''Health''
     else if has text ''course'' \<or> has text ''book'' \<or> has text ''education'' \<or>
        has text ''training'' \<or> has text ''class''
     then js ''Education''
     else if has text ''investment'' \<or> has text ''sip'' \<or> has text ''mutual'' \<or>
        has text ''stock'' \<or> has text ''fd'' \<or> has text ''deposit''
     then js ''Investment''
     else fallback)"

text \<open>
  \<open>categorizeTransaction(description, merchant?)\<close> of \<open>part_005\<close>;
  \<open>merchant || ''\<close> is the empty string for an absent merchant.
\<close>

definition categorizeTransaction :: "jsstring \<Rightarrow> jsstring option \<Rightarrow> jsstring" where
  "categorizeTransaction description merchant =
     keywordCategory
       (toLowerCase (description @ js '' '' @ (case merchant of None \<Rightarrow> [] | Some m \<Rightarrow> m)))
       (js ''Miscellaneous'')"

text \<open>\<open>categorizeTransaction(merchant)\<close> of \<open>PhonePeProcessor.tsx\<close>.\<close>

definition categorizeTransaction_PhonePe :: "jsstring \<Rightarrow> jsstring" where
  "categorizeTransaction_PhonePe merchant =
     keywordCategory (toLowerCase merchant) (js ''Miscellaneous'')"

text \<open>\<open>categorizeTransaction(merchant)\<close> of \<open>GPayProcessor.tsx\<close>: it ends in \<open>return 'Other'\<close>.\<close>

definition categorizeTransaction_GPay :: "jsstring \<Rightarrow> jsstring" where
  "categorizeTransaction_GPay merchant =
     keywordCategory (toLowerCase merchant) (js ''Other'')"

section \<open>The host and its dates\<close>

text \<open>
  What the JavaScript host supplies and the repository does not: the local
  time zone, taken as a fixed offset in minutes east of UTC (no daylight
  saving); the host's parser behind \<open>new Date(string)\<close>, which is
  implementation-defined for every text that is not in the ISO format
  (\<open>None\<close> stands for an Invalid Date, \<open>Some t\<close> for the time value
  \<open>t\<close> in milliseconds since the epoch); and the conversion of a number
  to a string.
\<close>

record host =
  tzOffset :: int
  dateParse :: "jsstring \<Rightarrow> int option"
  numberToString :: "number \<Rightarrow> jsstring"

definition msPerDay :: int where
  "msPerDay = 86400000"

definition isLeapYear :: "int \<Rightarrow> bool" where
  "isLeapYear y = (y mod 4 = 0 \<and> (y mod 100 \<noteq> 0 \<or> y mod 400 = 0))"

definition DayFromYear :: "int \<Rightarrow> int" where
  "DayFromYear y = 365 * (y - 1970) + (y - 1969) div 4 - (y - 1901) div 100 + (y - 1601) div 400"

text \<open>Days before the first of month \<open>m\<close> (0 = January) within its year.\<close>

definition monthStart :: "bool \<Rightarrow> int \<Rightarrow> int" where
  "monthStart leap m =
     (if m = 0 then 0 else if m = 1 then 31
      else ([59, 90, 120, 151, 181, 212, 243, 273, 304, 334] ! nat (m - 2)) + (if leap then 1 else 0))"

definition MakeDay :: "int \<Rightarrow> int \<Rightarrow> int \<Rightarrow> int" where
  "MakeDay year month dt =
     (let ym = year + month div 12; mn = month mod 12
      in DayFromYear ym + monthStart (isLeapYear ym) mn + dt - 1)"

definition TimeClip :: "int \<Rightarrow> int option" where
  "TimeClip t = (if \<bar>t\<bar> \<le> 8640000000000000 then Some t else None)"

text \<open>
  \<open>new Date(year, monthIndex, day)\<close>: NaN in any argument gives an
  Invalid Date; a year from 0 to 99 means 1900 + year; the fields are read
  in local time, so the time value is the local midnight moved to UTC.
\<close>

definition newDate :: "host \<Rightarrow> int option \<Rightarrow> int option \<Rightarrow> int option \<Rightarrow> int option" where
  "newDate h year monthIndex day =
     (case year of None \<Rightarrow> None | Some y \<Rightarrow>
      case monthIndex of None \<Rightarrow> None | Some m \<Rightarrow>
      case day of None \<Rightarrow> None | Some d \<Rightarrow>
        TimeClip (MakeDay (if 0 \<le> y \<and> y \<le> 99 then 1900 + y else y) m d * msPerDay
                  - tzOffset h * 60000))"

text \<open>\<open>new Date(string)\<close>: the host's parser.\<close>

definition newDateString :: "host \<Rightarrow> jsstring \<Rightarrow> int option" where
  "newDateString h s = (case dateParse h s of None \<Rightarrow> None | Some t \<Rightarrow> TimeClip t)"

text \<open>Year, month (0 = January) and day of the month of a day number.\<close>

definition yearFromDay :: "int \<Rightarrow> int" where
  "yearFromDay D =
     (let y0 = 1970 + (400 * D) div 146097
      in if DayFromYear (y0 + 1) \<le> D then y0 + 1
         else if D < DayFromYear y0 then y0 - 1 else y0)"

definition monthFromDay :: "int \<Rightarrow> int" where
  "monthFromDay D =
     (let y = yearFromDay D; dw = D - DayFromYear y; l = (if isLeapYear y then 1 else 0)
      in if dw < 31 then 0 else if dw < 59 + l then 1 else if dw < 90 + l then 2
         else if dw < 120 + l then 3 else if dw < 151 + l then 4 else if dw < 181 + l then 5
         else if dw < 212 + l then 6 else if dw < 243 + l then 7 else if dw < 273 + l then 8
         else if dw < 304 + l then 9 else if dw < 334 + l then 10 else 11)"

definition dateFromDay :: "int \<Rightarrow> int" where
  "dateFromDay D =
     (let y = yearFromDay D
      in D - DayFromYear y - monthStart (isLeapYear y) (monthFromDay D) + 1)"

definition localDay :: "host \<Rightarrow> int \<Rightarrow> int" where
  "localDay h t = (t + tzOffset h * 60000) div msPerDay"

definition getFullYear :: "host \<Rightarrow> int \<Rightarrow> int" where
  "getFullYear h t = yearFromDay (localDay h t)"

definition getMonth :: "host \<Rightarrow> int \<Rightarrow> int" where
  "getMonth h t = monthFromDay (localDay h t)"

definition getDate :: "host \<Rightarrow> int \<Rightarrow> int" where
  "getDate h t = dateFromDay (localDay h t)"

text \<open>Decimal digits of a natural number, and the same padded with zeros on the left.\<close>

function showNat :: "nat \<Rightarrow> jsstring" where
  "showNat n = (if n < 10 then [48 + n] else showNat (n div 10) @ [48 + n mod 10])"
  by pat_completeness auto
termination
  by (relation "measure (\<lambda>n. n)") auto

declare showNat.simps [simp del]

definition pad :: "nat \<Rightarrow> nat \<Rightarrow> jsstring" where
  "pad k n = replicate (k - length (showNat n)) 48 @ showNat n"

text \<open>
  \<open>toISOString\<close> of a valid time value: the UTC fields, the year with four
  digits from 0 to 9999 and with a sign and six digits otherwise.
\<close>

definition isoYear :: "int \<Rightarrow> jsstring" where
  "isoYear y = (if 0 \<le> y \<and> y \<le> 9999 then pad 4 (nat y)
                else if y < 0 then 45 # pad 6 (nat (- y)) else 43 # pad 6 (nat y))"

definition toISOString :: "int \<Rightarrow> jsstring" where
  "toISOString t =
     (let D = t div msPerDay; ms = t mod msPerDay
      in isoYear (yearFromDay D) @ js ''-'' @ pad 2 (nat (monthFromDay D + 1)) @ js ''-'' @
         pad 2 (nat (dateFromDay D)) @ js ''T'' @
         pad 2 (nat (ms div 3600000)) @ js '':'' @ pad 2 (nat (ms div 60000 mod 60)) @ js '':'' @
         pad 2 (nat (ms div 1000 mod 60)) @ js ''.'' @ pad 3 (nat (ms mod 1000)) @ js ''Z'')"

text \<open>\<open>d.toISOString().split('T')[0]\<close>.\<close>

definition isoDay :: "int \<Rightarrow> jsstring" where
  "isoDay t = hd (splitOn 84 (toISOString t))"

section \<open>Date parsing\<close>

text \<open>\<open>s.match(/r/)\<close> without the global flag: the groups of the first match.\<close>

definition regexMatch :: "regex \<Rightarrow> jsstring \<Rightarrow> caps option" where
  "regexMatch r s = (case search r 0 s of None \<Rightarrow> None | Some (k, (j, rest, c)) \<Rightarrow> Some c)"

definition groupText :: "jsstring \<Rightarrow> caps \<Rightarrow> nat \<Rightarrow> jsstring" where
  "groupText s c n = (case map_of c n of None \<Rightarrow> [] | Some (a, b) \<Rightarrow> take (b - a) (drop a s))"

text \<open>The prefix regex \<open>/^(Date|Dt|D):\s*/i\<close> of both \<open>parseDate\<close> functions.\<close>

definition datePrefix :: regex where
  "datePrefix = cats [Bol, Group 1 (alts [liti ''Date'', liti ''Dt'', liti ''D'']), chr 58, Star spaceCls]"

definition DATE_FORMATS :: "string list" where
  "DATE_FORMATS = [''dd/MM/yyyy'', ''dd-MM-yyyy'', ''dd.MM.yyyy'', ''MM/dd/yyyy'', ''MM-dd-yyyy'',
     ''yyyy-MM-dd'', ''yyyy/MM/dd'', ''dd/MM/yy'', ''dd-MM-yy'', ''MM/dd/yy'', ''MM-dd-yy'',
     ''yy-MM-dd'', ''yy/MM/dd'', ''MMM dd, yyyy'', ''dd MMM yyyy'', ''yyyy MMM dd'']"

text \<open>
  The parts of a date text in the order (day, month, year) that a format
  asks for: \<open>dd...\<close> reads day, month, year; \<open>MM...\<close> reads month, day,
  year; every other format reads year, month, day.
\<close>

definition orderParts :: "string \<Rightarrow> jsstring \<Rightarrow> jsstring \<Rightarrow> jsstring \<Rightarrow> jsstring \<times> jsstring \<times> jsstring" where
  "orderParts format p1 p2 p3 =
     (if startsWith (js format) (js ''dd'') then (p1, p2, p3)
      else if startsWith (js format) (js ''MM'') then (p2, p1, p3)
      else (p3, p2, p1))"

text \<open>\<open>parseInt(year) < 50 ? '20' + year : '19' + year\<close> for a year of two code units.\<close>

definition expandYear :: "jsstring \<Rightarrow> jsstring" where
  "expandYear year =
     (if length year = 2
      then (case parseInt year of
              None \<Rightarrow> js ''19'' @ year
            | Some n \<Rightarrow> if n < 50 then js ''20'' @ year else js ''19'' @ year)
      else year)"

text \<open>
  One round of the format loop of \<open>parseDate\<close> in \<open>part_005\<close>: \<open>Some\<close>
  is the value returned, \<open>None\<close> means the loop goes on. Only the year is
  compared with the constructed date.
\<close>

definition tryFormat :: "host \<Rightarrow> jsstring \<Rightarrow> string \<Rightarrow> jsstring option" where
  "tryFormat h cleanDateStr format =
     (case splitOn 47 (replaceAll (charsOf (js ''/-.'')) (js ''/'') cleanDateStr) of
        [p1, p2, p3] \<Rightarrow>
          (case orderParts format p1 p2 p3 of
             (day, month, year0) \<Rightarrow>
               let year = expandYear year0;
                   parsedDate = newDate h (parseInt year) (map_option (\<lambda>m. m - 1) (parseInt month)) (parseInt day)
               in (case parsedDate of
                     None \<Rightarrow> None
                   | Some t \<Rightarrow> if Some (getFullYear h t) = parseInt year then Some (isoDay t) else None))
      | _ \<Rightarrow> None)"

fun firstFormat :: "(string \<Rightarrow> jsstring option) \<Rightarrow> string list \<Rightarrow> jsstring option" where
  "firstFormat f [] = None"
| "firstFormat f (x # xs) = (case f x of Some r \<Rightarrow> Some r | None \<Rightarrow> firstFormat f xs)"

text \<open>
  \<open>parseDate\<close> of \<open>part_005\<close>, for a string argument: the format loop,
  then \<open>new Date(cleanDateStr)\<close> as the fallback. \<open>None\<close> is \<open>null\<close>.
\<close>

definition parseDate :: "host \<Rightarrow> jsstring \<Rightarrow> jsstring option" where
  "parseDate h dateStr =
     (if dateStr = [] then None
      else
        let cleanDateStr = replaceFirst datePrefix [] (trim dateStr)
        in (case firstFormat (tryFormat h cleanDateStr) DATE_FORMATS of
              Some r \<Rightarrow> Some r
            | None \<Rightarrow>
                (case newDateString h cleanDateStr of
                   None \<Rightarrow> None
                 | Some t \<Rightarrow> Some (isoDay t))))"

text \<open>\<open>parseDate\<close> of \<open>UniversalUPIProcessor.tsx\<close>.\<close>

definition monthNames :: "string list" where
  "monthNames = [''jan'', ''feb'', ''mar'', ''apr'', ''may'', ''jun'', ''jul'', ''aug'', ''sep'', ''oct'', ''nov'', ''dec'']"

text \<open>\<open>monthNames.findIndex(m => monthStr.toLowerCase().startsWith(m))\<close>; \<open>None\<close> is -1.\<close>

fun findMonth :: "jsstring \<Rightarrow> string list \<Rightarrow> nat \<Rightarrow> nat option" where
  "findMonth s [] i = None"
| "findMonth s (m # ms) i = (if startsWith s (js m) then Some i else findMonth s ms (Suc i))"

definition monthIndexOf :: "jsstring \<Rightarrow> nat option" where
  "monthIndexOf monthStr = findMonth (toLowerCase monthStr) monthNames 0"

definition digits12 :: regex where
  "digits12 = Cat digitCls (optional digitCls)"

definition monthFirst :: regex where
  "monthFirst = cats [Bol, Group 1 (cats [wordCls, wordCls, wordCls]), oneOrMore spaceCls,
                      Group 2 digits12, optional (chr 44), oneOrMore spaceCls,
                      Group 3 (cats [digitCls, digitCls, digitCls, digitCls]), Eol]"

definition dayFirst :: regex where
  "dayFirst = cats [Bol, Group 1 digits12, oneOrMore spaceCls,
                    Group 2 (cats [wordCls, wordCls, wordCls]), optional (chr 44), oneOrMore spaceCls,
                    Group 3 (cats [digitCls, digitCls, digitCls, digitCls]), Eol]"

text \<open>
  A month-name branch: \<open>Some (Some r)\<close> returns \<open>r\<close>, \<open>None\<close> falls
  through to the next branch. The date is accepted when it is valid; its
  components are not compared.
\<close>

definition monthNameDate :: "host \<Rightarrow> jsstring \<Rightarrow> jsstring \<Rightarrow> jsstring \<Rightarrow> jsstring option" where
  "monthNameDate h monthStr day year =
     (case monthIndexOf monthStr of
        None \<Rightarrow> None
      | Some monthIndex \<Rightarrow>
          (case newDate h (parseInt year) (Some (int monthIndex)) (parseInt day) of
             None \<Rightarrow> None
           | Some t \<Rightarrow> Some (isoDay t)))"

text \<open>One round of the format loop: year, month and day are all compared.\<close>

definition tryFormat_Universal :: "host \<Rightarrow> jsstring \<Rightarrow> string \<Rightarrow> jsstring option" where
  "tryFormat_Universal h cleanDateStr format =
     (case splitOn 47 (replaceAll (charsOf (js ''/-.'')) (js ''/'') cleanDateStr) of
        [p1, p2, p3] \<Rightarrow>
          (case orderParts format p1 p2 p3 of
             (day, month, year0) \<Rightarrow>
               let year = expandYear year0;
                   date = newDate h (parseInt year) (map_option (\<lambda>m. m - 1) (parseInt month)) (parseInt day)
               in (case date of
                     None \<Rightarrow> None
                   | Some t \<Rightarrow>
                       if Some (getFullYear h t) = parseInt year \<and>
                          Some (getMonth h t) = map_option (\<lambda>m. m - 1) (parseInt month) \<and>
                          Some (getDate h t) = parseInt day
                       then Some (isoDay t) else None))
      | _ \<Rightarrow> None)"

definition parseDate_Universal :: "host \<Rightarrow> jsstring \<Rightarrow> jsstring option" where
  "parseDate_Universal h dateStr =
     (if dateStr = [] then None
      else
        let cleanDateStr = replaceFirst datePrefix [] (trim dateStr)
        in if cleanDateStr = [] then None
           else
             (case (case regexMatch monthFirst cleanDateStr of
                      None \<Rightarrow> None
                    | Some c \<Rightarrow> monthNameDate h (groupText cleanDateStr c 1) (groupText cleanDateStr c 2)
                                  (groupText cleanDateStr c 3)) of
                Some r \<Rightarrow> Some r
              | None \<Rightarrow>
                  (case (case regexMatch dayFirst cleanDateStr of
                           None \<Rightarrow> None
                         | Some c \<Rightarrow> monthNameDate h (groupText cleanDateStr c 2) (groupText cleanDateStr c 1)
                                       (groupText cleanDateStr c 3)) of
                     Some r \<Rightarrow> Some r
                   | None \<Rightarrow>
                       firstFormat (tryFormat_Universal h cleanDateStr)
                         [''dd/MM/yyyy'', ''MM/dd/yyyy'', ''yyyy-MM-dd'', ''dd-MM-yyyy''])))"

text \<open>\<open>parseDate\<close> of \<open>PhonePeProcessor.tsx\<close>: \<open>new Date(dateStr)\<close> alone.\<close>

definition parseDate_PhonePe :: "host \<Rightarrow> jsstring \<Rightarrow> jsstring option" where
  "parseDate_PhonePe h dateStr =
     (case newDateString h dateStr of None \<Rightarrow> None | Some t \<Rightarrow> Some (isoDay t))"

section \<open>The tabular processors of \<open>part_005\<close>\<close>

record ProcessedTransaction =
  date :: jsstring
  amount :: number
  description :: jsstring
  category :: jsstring
  paymentMode :: jsstring
  merchant :: jsstring

record ProcessingResult =
  transactions :: "ProcessedTransaction list"
  errors :: "jsstring list"
  warnings :: "jsstring list"

definition dateColumns :: "string list" where
  "dateColumns = [''date'', ''dt'', ''transaction_date'', ''date_time'', ''time'']"

definition amountColumns :: "string list" where
  "amountColumns = [''amount'', ''amt'', ''debit'', ''credit'', ''transaction_amount'', ''balance'']"

definition descColumns :: "string list" where
  "descColumns = [''description'', ''desc'', ''narration'', ''remarks'', ''particulars'', ''transaction_details'']"

text \<open>\<open>description.split(' ')[0] || 'Unknown'\<close>.\<close>

definition merchantOf :: "jsstring \<Rightarrow> jsstring" where
  "merchantOf descr =
     (if hd (splitOn 32 descr) = [] then js ''Unknown'' else hd (splitOn 32 descr))"

text \<open>The object pushed for an accepted row whose description is the string \<open>d\<close>.\<close>

definition rowTransaction :: "jsstring \<Rightarrow> number \<Rightarrow> jsstring \<Rightarrow> ProcessedTransaction" where
  "rowTransaction dt amt d =
     \<lparr> date = dt, amount = amt,
       description = (if d = [] then js ''Unknown transaction'' else d),
       category = categorizeTransaction d None,
       paymentMode = js ''UPI'',
       merchant = merchantOf d \<rparr>"

text \<open>The two warnings of a row; 34 is the double quote.\<close>

definition dateWarning :: "nat \<Rightarrow> jsstring \<Rightarrow> jsstring" where
  "dateWarning rowNo tok = js ''Row '' @ showNat rowNo @ js '': Could not parse date '' @ [34] @ tok @ [34]"

definition amountWarning :: "nat \<Rightarrow> jsstring \<Rightarrow> jsstring" where
  "amountWarning rowNo tok = js ''Row '' @ showNat rowNo @ js '': Could not parse amount '' @ [34] @ tok @ [34]"

text \<open>\<open>!date\<close> and \<open>!amount\<close>: \<open>null\<close>, the empty string, zero and NaN are falsy.\<close>

fun truthyDate :: "jsstring option \<Rightarrow> bool" where
  "truthyDate None = False"
| "truthyDate (Some s) = (s \<noteq> [])"

fun truthyAmount :: "number option \<Rightarrow> bool" where
  "truthyAmount None = False"
| "truthyAmount (Some n) = truthyN n"

subsection \<open>CSV\<close>

text \<open>
  Papa Parse with \<open>header: true\<close> hands over each data row as an object
  keyed by the fields of the header row, every value a string. A row object
  is an association list here, and \<open>row[col]\<close> is \<open>map_of row col\<close>. The
  parse ends in the \<open>complete\<close> callback with the rows or in the \<open>error\<close>
  callback with a message.
\<close>

type_synonym csvRow = "(jsstring \<times> jsstring) list"

datatype papaResult = PapaComplete "csvRow list" | PapaError jsstring

definition papaRow :: "jsstring list \<Rightarrow> jsstring list \<Rightarrow> csvRow" where
  "papaRow header cells = zip header cells"

text \<open>
  \<open>for (const col of columns) if (row[col]) { v = row[col]; break; }\<close>
  with \<open>v\<close> starting as the empty string.
\<close>

fun firstTruthy :: "csvRow \<Rightarrow> string list \<Rightarrow> jsstring" where
  "firstTruthy row [] = []"
| "firstTruthy row (col # cols) =
     (case map_of row (js col) of
        None \<Rightarrow> firstTruthy row cols
      | Some v \<Rightarrow> if v \<noteq> [] then v else firstTruthy row cols)"

text \<open>The callback of \<open>results.data.forEach\<close>; nothing in its \<open>try\<close> block can throw.\<close>

definition csvRowStep :: "host \<Rightarrow> ProcessingResult \<Rightarrow> nat \<Rightarrow> csvRow \<Rightarrow> ProcessingResult" where
  "csvRowStep h acc index row =
     (let dateStr = firstTruthy row dateColumns;
          amountStr = firstTruthy row amountColumns;
          descr = firstTruthy row descColumns;
          dt = parseDate h dateStr;
          amt = parseAmount amountStr;
          w1 = (if truthyDate dt then [] else [dateWarning (index + 1) dateStr]);
          w2 = (if truthyAmount amt then [] else [amountWarning (index + 1) amountStr])
      in acc \<lparr> warnings := warnings acc @ w1 @ w2,
               transactions := transactions acc @
                 (case dt of
                    None \<Rightarrow> []
                  | Some d \<Rightarrow>
                      (case amt of
                         None \<Rightarrow> []
                       | Some a \<Rightarrow> if d \<noteq> [] \<and> truthyN a then [rowTransaction d a descr] else [])) \<rparr>)"

fun forEachFrom :: "(ProcessingResult \<Rightarrow> nat \<Rightarrow> 'a \<Rightarrow> ProcessingResult) \<Rightarrow> nat \<Rightarrow> 'a list
      \<Rightarrow> ProcessingResult \<Rightarrow> ProcessingResult" where
  "forEachFrom f i [] acc = acc"
| "forEachFrom f i (r # rs) acc = forEachFrom f (Suc i) rs (f acc i r)"

definition emptyResult :: ProcessingResult where
  "emptyResult = \<lparr> transactions = [], errors = [], warnings = [] \<rparr>"

definition failure :: "jsstring \<Rightarrow> ProcessingResult" where
  "failure msg = \<lparr> transactions = [], errors = [msg], warnings = [] \<rparr>"

definition processCSV :: "host \<Rightarrow> papaResult \<Rightarrow> ProcessingResult" where
  "processCSV h p =
     (case p of
        PapaComplete rows \<Rightarrow> forEachFrom (csvRowStep h) 0 rows emptyResult
      | PapaError message \<Rightarrow> failure (js ''CSV parsing error: '' @ message))"

subsection \<open>Excel\<close>

text \<open>
  \<open>XLSX.utils.sheet_to_json(worksheet, {header: 1})\<close> gives the sheet as
  an array of rows, each an array of cell values: a string, a number, a
  boolean, or nothing (\<open>Undefined\<close>, also for a read past the end of a
  row). The reader fails, or \<open>XLSX.read\<close> throws an error (given by its
  text), or the rows arrive.
\<close>

datatype cell = Undefined | Str jsstring | Num number | Bool bool

datatype xlsxResult = ReaderError | XlsxThrows jsstring | Sheet "cell list list"

datatype exn = TypeError jsstring

definition errorString :: "exn \<Rightarrow> jsstring" where
  "errorString e = (case e of TypeError m \<Rightarrow> js ''TypeError: '' @ m)"

fun truthyCell :: "cell \<Rightarrow> bool" where
  "truthyCell Undefined = False"
| "truthyCell (Str s) = (s \<noteq> [])"
| "truthyCell (Num n) = truthyN n"
| "truthyCell (Bool b) = b"

text \<open>A cell inside a template string.\<close>

fun cellString :: "host \<Rightarrow> cell \<Rightarrow> jsstring" where
  "cellString h Undefined = js ''undefined''"
| "cellString h (Str s) = s"
| "cellString h (Num n) = numberToString h n"
| "cellString h (Bool b) = (if b then js ''true'' else js ''false'')"

text \<open>
  \<open>headers.findIndex(h => h && columns.some(c => h.toLowerCase().includes(c)))\<close>:
  \<open>Inr None\<close> is -1; a truthy header that is no string has no
  \<open>toLowerCase\<close>, and the call throws.
\<close>

fun findColumn :: "string list \<Rightarrow> cell list \<Rightarrow> nat \<Rightarrow> exn + nat option" where
  "findColumn cols [] i = Inr None"
| "findColumn cols (Str s # hs) i =
     (if s \<noteq> [] \<and> list_ex (has (toLowerCase s)) cols then Inr (Some i)
      else findColumn cols hs (Suc i))"
| "findColumn cols (c # hs) i =
     (if truthyCell c then Inl (TypeError (js ''h.toLowerCase is not a function''))
      else findColumn cols hs (Suc i))"

text \<open>\<open>colIndex >= 0 ? row[colIndex] : ''\<close>.\<close>

fun cellAt :: "cell list \<Rightarrow> nat option \<Rightarrow> cell" where
  "cellAt row None = Str []"
| "cellAt row (Some i) = (if i < length row then row ! i else Undefined)"

text \<open>\<open>parseDate\<close> and \<open>parseAmount\<close> return \<open>null\<close> for an argument that is no string.\<close>

fun parseDateCell :: "host \<Rightarrow> cell \<Rightarrow> jsstring option" where
  "parseDateCell h (Str s) = parseDate h s"
| "parseDateCell h c = None"

fun parseAmountCell :: "cell \<Rightarrow> number option" where
  "parseAmountCell (Str s) = parseAmount s"
| "parseAmountCell c = None"

text \<open>
  The \<open>try\<close> block of a data row, as the result so far and the exception
  thrown, if any: \<open>description.split\<close> throws for a description cell that
  is no string, after the object's earlier fields were computed and before
  anything is pushed.
\<close>

definition excelRowTry :: "host \<Rightarrow> nat option \<Rightarrow> nat option \<Rightarrow> nat option \<Rightarrow>
    ProcessingResult \<Rightarrow> nat \<Rightarrow> cell list \<Rightarrow> ProcessingResult \<times> exn option" where
  "excelRowTry h dateColIndex amountColIndex descColIndex acc i row =
     (let dateStr = cellAt row dateColIndex;
          amountStr = cellAt row amountColIndex;
          descr = cellAt row descColIndex;
          dt = parseDateCell h dateStr;
          amt = parseAmountCell amountStr;
          w1 = (if truthyDate dt then [] else [dateWarning (i + 1) (cellString h dateStr)]);
          w2 = (if truthyAmount amt then [] else [amountWarning (i + 1) (cellString h amountStr)]);
          acc1 = acc \<lparr> warnings := warnings acc @ w1 @ w2 \<rparr>
      in case dt of
           None \<Rightarrow> (acc1, None)
         | Some d \<Rightarrow>
             (case amt of
                None \<Rightarrow> (acc1, None)
              | Some a \<Rightarrow>
                  if d \<noteq> [] \<and> truthyN a then
                    (case descr of
                       Str s \<Rightarrow> (acc1 \<lparr> transactions := transactions acc1 @ [rowTransaction d a s] \<rparr>, None)
                     | Undefined \<Rightarrow>
                         (acc1, Some (TypeError (js ''Cannot read properties of undefined (reading ''
                                                 @ [39] @ js ''split'' @ [39] @ js '')'')))
                     | Num n \<Rightarrow> (acc1, Some (TypeError (js ''description.split is not a function'')))
                     | Bool b \<Rightarrow> (acc1, Some (TypeError (js ''description.split is not a function''))))
                  else (acc1, None)))"

text \<open>The row with its \<open>catch\<close>; empty rows are skipped.\<close>

definition excelRowStep :: "host \<Rightarrow> nat option \<Rightarrow> nat option \<Rightarrow> nat option \<Rightarrow>
    ProcessingResult \<Rightarrow> nat \<Rightarrow> cell list \<Rightarrow> ProcessingResult" where
  "excelRowStep h dateColIndex amountColIndex descColIndex acc i row =
     (if row = [] then acc
      else
        (case excelRowTry h dateColIndex amountColIndex descColIndex acc i row of
           (acc1, None) \<Rightarrow> acc1
         | (acc1, Some e) \<Rightarrow>
             acc1 \<lparr> errors := errors acc1 @ [js ''Row '' @ showNat (i + 1) @ js '': '' @ errorString e] \<rparr>))"

text \<open>The \<open>try\<close> block of \<open>reader.onload\<close> once the rows are there.\<close>

definition excelSheetTry :: "host \<Rightarrow> cell list list \<Rightarrow> exn + ProcessingResult" where
  "excelSheetTry h jsonData =
     (if length jsonData < 2
      then Inr (failure (js ''Excel file must have at least a header row and one data row''))
      else
        (case findColumn dateColumns (hd jsonData) 0 of
           Inl e \<Rightarrow> Inl e
         | Inr dateColIndex \<Rightarrow>
        (case findColumn amountColumns (hd jsonData) 0 of
           Inl e \<Rightarrow> Inl e
         | Inr amountColIndex \<Rightarrow>
        (case findColumn descColumns (hd jsonData) 0 of
           Inl e \<Rightarrow> Inl e
         | Inr descColIndex \<Rightarrow>
             Inr (forEachFrom (excelRowStep h dateColIndex amountColIndex descColIndex) 1 (tl jsonData)
                    (emptyResult \<lparr> warnings :=
                       (if dateColIndex = None then [js ''Could not find date column''] else []) @
                       (if amountColIndex = None then [js ''Could not find amount column''] else []) @
                       (if descColIndex = None then [js ''Could not find description column''] else []) \<rparr>))))))"

definition processExcel :: "host \<Rightarrow> xlsxResult \<Rightarrow> ProcessingResult" where
  "processExcel h x =
     (case x of
        ReaderError \<Rightarrow> failure (js ''Failed to read Excel file'')
      | XlsxThrows err \<Rightarrow> failure (js ''Excel processing error: '' @ err)
      | Sheet jsonData \<Rightarrow>
          (case excelSheetTry h jsonData of
             Inl e \<Rightarrow> failure (js ''Excel processing error: '' @ errorString e)
           | Inr r \<Rightarrow> r))"

subsection \<open>PDF and the router\<close>





section \<open>The PhonePe pattern matcher\<close>

record PhonePeTransaction =
  txDate :: jsstring
  txMerchant :: jsstring
  txType :: jsstring
  txAmount :: jsstring

text \<open>
  The pattern of \<open>parsePhonePeTransactions\<close>:
  \<open>/([A-Za-z]{3}\s+\d{1,2},\s+\d{4})\s+Paid to\s+([\s\S]*?)\s+(DEBIT|CREDIT)\s+(rupee)(\d+(?:\.\d{1,2})?)/g\<close>.
\<close>

definition phonePePattern :: regex where
  "phonePePattern =
     cats [Group 1 (cats [alphaCls, alphaCls, alphaCls, oneOrMore spaceCls, digits12, chr 44,
                          oneOrMore spaceCls, digitCls, digitCls, digitCls, digitCls]),
           oneOrMore spaceCls, lit ''Paid to'', oneOrMore spaceCls,
           Group 2 (LazyStar AnyChar),
           oneOrMore spaceCls, Group 3 (Alt (lit ''DEBIT'') (lit ''CREDIT'')),
           oneOrMore spaceCls, chr rupee,
           Group 4 (Cat (oneOrMore digitCls) (optional (cats [chr 46, digitCls, optional digitCls])))]"

text \<open>
  \<open>while ((match = pattern.exec(text)) !== null)\<close> with the global flag:
  the groups of every match, left to right, each search starting where the
  last match ended. The scan walks the input as \<open>replaceAllFrom\<close> does;
  the pattern has no empty match.
\<close>

fun execAll :: "regex \<Rightarrow> nat \<Rightarrow> nat \<Rightarrow> jsstring \<Rightarrow> caps list" where
  "execAll r skip i [] = []"
| "execAll r skip i (x # xs) =
     (if 0 < skip then execAll r (skip - 1) (Suc i) xs
      else (case rmatch r (i, x # xs, []) of
              [] \<Rightarrow> execAll r 0 (Suc i) xs
            | m # ms \<Rightarrow>
                if fst m = i then execAll r 0 (Suc i) xs
                else snd (snd m) # execAll r (fst m - i - 1) (Suc i) xs))"

definition parsePhonePeTransactions :: "jsstring \<Rightarrow> PhonePeTransaction list" where
  "parsePhonePeTransactions txt =
     map (\<lambda>c. \<lparr> txDate = trim (groupText txt c 1),
                 txMerchant = trim (replaceAll (oneOrMore spaceCls) (js '' '') (groupText txt c 2)),
                 txType = groupText txt c 3,
                 txAmount = trim (groupText txt c 4) \<rparr>)
         (execAll phonePePattern 0 0 txt)"

text \<open>
  The mapping of \<open>processPhonePePDFClientSide\<close> from a match to a
  transaction: \<open>parseDate(tx.date) || tx.date\<close>, the amount negated for
  \<open>DEBIT\<close>.
\<close>

definition phonePeTransaction :: "host \<Rightarrow> PhonePeTransaction \<Rightarrow> ProcessedTransaction" where
  "phonePeTransaction h tx =
     \<lparr> date = (case parseDate_PhonePe h (txDate tx) of
                 None \<Rightarrow> txDate tx
               | Some d \<Rightarrow> if d = [] then txDate tx else d),
       amount = (if txType tx = js ''DEBIT'' then negN (parseFloat (txAmount tx)) else parseFloat (txAmount tx)),
       description = js ''PhonePe '' @ txType tx @ js '' to '' @ txMerchant tx,
       category = categorizeTransaction_PhonePe (txMerchant tx),
       paymentMode = js ''UPI'',
       merchant = txMerchant tx \<rparr>"

text \<open>\<open>processPhonePePDFClientSide\<close> once the file's bytes are decoded to \<open>txt\<close>.\<close>

definition processPhonePePDFClientSide :: "host \<Rightarrow> jsstring \<Rightarrow> ProcessingResult" where
  "processPhonePePDFClientSide h txt =
     (let txs = parsePhonePeTransactions txt
      in \<lparr> transactions = map (phonePeTransaction h) txs,
           errors = [],
           warnings = [js ''Client-side processing used (limited accuracy)'',
                       js ''For better results, set up the Python backend service'',
                       js ''Found '' @ showNat (length txs) @ js '' potential transactions''] \<rparr>)"

section \<open>Hosts and inputs of the scenarios\<close>

text \<open>
  The host \<open>h\<close> with one more text that \<open>new Date(string)\<close> reads: \<open>s\<close>
  as the local midnight of day \<open>d\<close> of month \<open>m\<close> of year \<open>y\<close>, the way
  browsers read \<open>Feb 13, 2025\<close>.
\<close>

definition reading :: "host \<Rightarrow> jsstring \<Rightarrow> int \<Rightarrow> int \<Rightarrow> int \<Rightarrow> host" where
  "reading h s y m d = h \<lparr> dateParse := (dateParse h) (s := newDate h (Some y) (Some (m - 1)) (Some d)) \<rparr>"

definition scenarioA :: "jsstring list \<Rightarrow> papaResult" where
  "scenarioA header = PapaComplete [papaRow header (map js [''15/02/2025'', ''500'', ''Swiggy Food Order''])]"

definition scenarioC :: jsstring where
  "scenarioC = js ''Feb 13, 2025 Paid to Swiggy DEBIT '' @ [rupee] @ js ''250''"

text \<open>
  A host at offset \<open>tz\<close> whose \<open>new Date(string)\<close> reads no text;
  its conversion of numbers to strings plays no part below.
\<close>

definition hostAt :: "int \<Rightarrow> host" where
  "hostAt tz = \<lparr> tzOffset = tz, dateParse = (\<lambda>s. None), numberToString = (\<lambda>n. []) \<rparr>"

text \<open>
  Three data rows under the header \<open>date,amount,description\<close>: one that
  parses, one whose date is empty and whose amount is \<open>abc\<close>, one whose
  amount is \<open>0\<close>; as the row objects of a CSV and as the rows of a sheet
  with the header \<open>Date\<close>, \<open>Amount\<close>, \<open>Description\<close>. \<open>swiggy\<close>
  is the transaction of the first row on a host at UTC.
\<close>

definition exampleHeader :: "jsstring list" where
  "exampleHeader = map js [''date'', ''amount'', ''description'']"

definition exampleCells :: "jsstring list list" where
  "exampleCells = [map js [''15/02/2025'', ''500'', ''Swiggy Food Order''],
                   [[], js ''abc'', js ''x''],
                   map js [''15/02/2025'', ''0'', ''x'']]"

definition exampleRows :: "csvRow list" where
  "exampleRows = map (papaRow exampleHeader) exampleCells"

definition exampleSheet :: "cell list list" where
  "exampleSheet = map (map Str) (map js [''Date'', ''Amount'', ''Description''] # exampleCells)"

definition swiggy :: ProcessedTransaction where
  "swiggy = \<lparr> date = js ''2025-02-15'', amount = Fin 500, description = js ''Swiggy Food Order'',
        category = js ''Food'', paymentMode = js ''UPI'', merchant = js ''Swiggy'' \<rparr>"


definition leadingSpaceRows :: "csvRow list" where
  "leadingSpaceRows = [papaRow exampleHeader (map js [''15/02/2025'', ''500'', '' Swiggy Food Order''])]"

text \<open>
  Scenario B: a sheet with a \<open>Credit\<close> and a \<open>Debit\<close> column and the row
  with Credit 0 and Debit 250, the cells as text and as numbers, and the
  same sheet with the two columns exchanged.
\<close>

definition creditFirst :: "cell list list" where
  "creditFirst = [map Str (map js [''Date'', ''Description'', ''Credit'', ''Debit'']),
                  map Str (map js [''15/02/2025'', ''Swiggy'', ''0'', ''250''])]"

definition creditFirstNumeric :: "cell list list" where
  "creditFirstNumeric = [map Str (map js [''Date'', ''Description'', ''Credit'', ''Debit'']),
                         [Str (js ''15/02/2025''), Str (js ''Swiggy''), Num (Fin 0), Num (Fin 250)]]"

definition debitFirst :: "cell list list" where
  "debitFirst = [map Str (map js [''Date'', ''Description'', ''Debit'', ''Credit'']),
                 map Str (map js [''15/02/2025'', ''Swiggy'', ''250'', ''0''])]"








section \<open>Notions used in the statements\<close>




text \<open>What one CSV row adds to the transactions and to the warnings.\<close>

definition csvRowTransactions :: "host \<Rightarrow> csvRow \<Rightarrow> ProcessedTransaction list" where
  "csvRowTransactions h row =
     (case parseDate h (firstTruthy row dateColumns) of
        None \<Rightarrow> []
      | Some d \<Rightarrow>
          (case parseAmount (firstTruthy row amountColumns) of
             None \<Rightarrow> []
           | Some a \<Rightarrow> if d \<noteq> [] \<and> truthyN a then [rowTransaction d a (firstTruthy row descColumns)] else []))"

definition csvRowWarnings :: "host \<Rightarrow> nat \<Rightarrow> csvRow \<Rightarrow> jsstring list" where
  "csvRowWarnings h index row =
     (if truthyDate (parseDate h (firstTruthy row dateColumns)) then []
      else [dateWarning (index + 1) (firstTruthy row dateColumns)]) @
     (if truthyAmount (parseAmount (firstTruthy row amountColumns)) then []
      else [amountWarning (index + 1) (firstTruthy row amountColumns)])"

text \<open>What one Excel row adds to the transactions and to the warnings.\<close>

definition excelRowTransactions :: "host \<Rightarrow> nat option \<Rightarrow> nat option \<Rightarrow> nat option \<Rightarrow> cell list
    \<Rightarrow> ProcessedTransaction list" where
  "excelRowTransactions h dateColIndex amountColIndex descColIndex row =
     (if row = [] then []
      else
        (case parseDateCell h (cellAt row dateColIndex) of
           None \<Rightarrow> []
         | Some d \<Rightarrow>
             (case parseAmountCell (cellAt row amountColIndex) of
                None \<Rightarrow> []
              | Some a \<Rightarrow>
                  if d \<noteq> [] \<and> truthyN a
                  then (case cellAt row descColIndex of Str s \<Rightarrow> [rowTransaction d a s] | _ \<Rightarrow> [])
                  else [])))"

definition excelRowWarnings :: "host \<Rightarrow> nat option \<Rightarrow> nat option \<Rightarrow> nat \<Rightarrow> cell list \<Rightarrow> jsstring list" where
  "excelRowWarnings h dateColIndex amountColIndex i row =
     (if row = [] then []
      else
        (if truthyDate (parseDateCell h (cellAt row dateColIndex)) then []
         else [dateWarning (i + 1) (cellString h (cellAt row dateColIndex))]) @
        (if truthyAmount (parseAmountCell (cellAt row amountColIndex)) then []
         else [amountWarning (i + 1) (cellString h (cellAt row amountColIndex))]))"

text \<open>
  The first white-space-separated token of a text, in the words of the
  specification: leading white space is skipped, the token runs up to the
  next white space.
\<close>

definition firstToken :: "jsstring \<Rightarrow> jsstring" where
  "firstToken s = takeWhile (\<lambda>c. \<not> isSpace c) (dropWhile isSpace s)"







text \<open>The text that \<open>parseAmount\<close> hands to \<open>parseFloat\<close>.\<close>

definition numericText :: "jsstring \<Rightarrow> jsstring" where
  "numericText amountStr =
     replaceAll (charsOf (js ''()DrCr'')) []
       (trim (replaceAll (oneOrMore spaceCls) []
          (replaceAll (charsOf (rupee # js ''$'' @ [euro, pound] @ js '','')) [] amountStr)))"

section \<open>Categorizer results\<close>

lemma keywordCategory_cases:
  "keywordCategory t fb \<in> set (map js [''Food'', ''Travel'', ''Shopping'', ''Bills'',
      ''Entertainment'', ''Health'', ''Education'', ''Investment'']) \<or> keywordCategory t fb = fb"
  unfolding keywordCategory_def by simp

lemma categorizeTransaction_total: "categorizeTransaction d m \<in> set Category"
  using keywordCategory_cases [of "toLowerCase (d @ js '' '' @ (case m of None \<Rightarrow> [] | Some x \<Rightarrow> x))" "js ''Miscellaneous''"]
  unfolding categorizeTransaction_def Category_def by auto

lemma categorizeTransaction_PhonePe_total: "categorizeTransaction_PhonePe m \<in> set Category"
  using keywordCategory_cases [of "toLowerCase m" "js ''Miscellaneous''"]
  unfolding categorizeTransaction_PhonePe_def Category_def by auto

text \<open>
  C9. Every categorization path returns a member of the fixed category
  enumeration. The generic categorizer and the PhonePe one do; the Google Pay
  processor returns \<open>Other\<close> for a text without keyword, the empty string
  included, and \<open>Other\<close> is no member of \<open>Category\<close>.
\<close>

theorem C9_gpay_returns_Other:
  "categorizeTransaction_GPay [] = js ''Other'' \<and> categorizeTransaction_GPay [] \<notin> set Category
   \<and> categorizeTransaction [] None = js ''Miscellaneous''"
  by (simp add: categorizeTransaction_GPay_def categorizeTransaction_def keywordCategory_def
      toLowerCase_def has_def js_def Category_def startsWith_def lowerUnit_def)

section \<open>Calendar facts\<close>

lemma div_bounds: "0 < c \<Longrightarrow> c * (a div c) \<le> a \<and> a < c * (a div c) + c" for a c :: int
  using mult_div_mod_eq [of c a] pos_mod_bound [of c a] pos_mod_sign [of c a] by linarith

lemma DayFromYear_lower_aux:
  fixes y a b c :: int
  assumes "y - 1969 < 4 * a + 4" "100 * b \<le> y - 1901" "y - 1601 < 400 * c + 400"
  shows "146097 * (y - 1970) - 506 \<le> 400 * (365 * (y - 1970) + a - b + c)"
  using assms by (simp add: algebra_simps)

lemma DayFromYear_upper_aux:
  fixes y a b c :: int
  assumes "4 * a \<le> y - 1969" "y - 1901 < 100 * b + 100" "400 * c \<le> y - 1601"
  shows "400 * (365 * (y - 1970) + a - b + c) \<le> 146097 * (y - 1970) + 589"
  using assms by (simp add: algebra_simps)

lemma DayFromYear_lower: "146097 * (y - 1970) - 506 \<le> 400 * DayFromYear y"
  unfolding DayFromYear_def
  using div_bounds [of 4 "y - 1969"] div_bounds [of 100 "y - 1901"] div_bounds [of 400 "y - 1601"]
  by (intro DayFromYear_lower_aux) simp_all

lemma DayFromYear_upper: "400 * DayFromYear y \<le> 146097 * (y - 1970) + 589"
  unfolding DayFromYear_def
  using div_bounds [of 4 "y - 1969"] div_bounds [of 100 "y - 1901"] div_bounds [of 400 "y - 1601"]
  by (intro DayFromYear_upper_aux) simp_all

lemma yearFromDay_bracket_lo: "DayFromYear (yearFromDay D) \<le> D"
proof -
  define y0 where "y0 = 1970 + (400 * D) div 146097"
  have lo: "146097 * (y0 - 1970) \<le> 400 * D"
    unfolding y0_def using div_bounds [of 146097 "400 * D"] by simp
  note b1 = DayFromYear_upper [of "y0 - 1"]
  have yd: "yearFromDay D = (if DayFromYear (y0 + 1) \<le> D then y0 + 1
         else if D < DayFromYear y0 then y0 - 1 else y0)"
    unfolding yearFromDay_def y0_def Let_def by simp
  show ?thesis
    unfolding yd using lo b1 by auto
qed

lemma yearFromDay_bracket_hi: "D < DayFromYear (yearFromDay D + 1)"
proof -
  define y0 where "y0 = 1970 + (400 * D) div 146097"
  have hi: "400 * D < 146097 * (y0 - 1970) + 146097"
    unfolding y0_def using div_bounds [of 146097 "400 * D"] by simp
  note b2 = DayFromYear_lower [of "y0 + 2"]
  have yd: "yearFromDay D = (if DayFromYear (y0 + 1) \<le> D then y0 + 1
         else if D < DayFromYear y0 then y0 - 1 else y0)"
    unfolding yearFromDay_def y0_def Let_def by simp
  show ?thesis
    unfolding yd using hi b2 by (auto simp: algebra_simps)
qed


lemma div_step:
  fixes a c :: int
  assumes "0 < c"
  shows "(a + 1) div c = a div c + (if (a + 1) mod c = 0 then 1 else 0)"
proof -
  define q r where "q = a div c" and "r = a mod c"
  have a: "a = c * q + r" and r: "0 \<le> r" "r < c"
    using assms by (simp_all add: q_def r_def)
  show ?thesis
  proof (cases "r + 1 = c")
    case True
    then have e: "a + 1 = c * (q + 1) + 0" using a by (simp add: algebra_simps)
    have "(a + 1) div c = q + 1" using int_div_pos_eq [OF e] assms by simp
    moreover have "(a + 1) mod c = 0" using int_mod_pos_eq [OF e] assms by simp
    ultimately show ?thesis by (simp add: q_def)
  next
    case False
    then have lt: "r + 1 < c" using r by simp
    have e: "a + 1 = c * q + (r + 1)" using a by simp
    have "(a + 1) div c = q" using int_div_pos_eq [OF e _ lt] r by simp
    moreover have "(a + 1) mod c = r + 1" using int_mod_pos_eq [OF e _ lt] r by simp
    ultimately show ?thesis using r by (simp add: q_def)
  qed
qed

lemma mod_shift: "k mod c = 0 \<Longrightarrow> (y - k) mod c = y mod c" for y k c :: int
  using mod_diff_right_eq [of y k c] by simp

lemma leap_count:
  "(P400 \<Longrightarrow> P100) \<Longrightarrow> (P100 \<Longrightarrow> P4) \<Longrightarrow>
   (if P4 then 1 else 0) - (if P100 then 1 else 0) + (if P400 then 1 else 0)
     = (if P4 \<and> (\<not> P100 \<or> P400) then 1 else (0::int))"
  by auto

lemma DayFromYear_Suc_aux:
  fixes y a b c i j k :: int
  shows "365 * (y + 1 - 1970) + (a + i) - (b + j) + (c + k)
          = 365 * (y - 1970) + a - b + c + 365 + (i - j + k)"
  by simp

lemma DayFromYear_Suc:
  "DayFromYear (y + 1) = DayFromYear y + 365 + (if isLeapYear y then 1 else 0)"
proof -
  have a: "(y + 1 - 1969) div 4 = (y - 1969) div 4 + (if y mod 4 = 0 then 1 else 0)"
    using div_step [of 4 "y - 1969"] mod_shift [of 1968 4 y] by (simp add: algebra_simps)
  have b: "(y + 1 - 1901) div 100 = (y - 1901) div 100 + (if y mod 100 = 0 then 1 else 0)"
    using div_step [of 100 "y - 1901"] mod_shift [of 1900 100 y] by (simp add: algebra_simps)
  have c: "(y + 1 - 1601) div 400 = (y - 1601) div 400 + (if y mod 400 = 0 then 1 else 0)"
    using div_step [of 400 "y - 1601"] mod_shift [of 1600 400 y] by (simp add: algebra_simps)
  have d: "y mod 400 = 0 \<Longrightarrow> y mod 100 = 0"
    using mod_mod_cancel [of 100 400 y] by simp
  have e: "y mod 100 = 0 \<Longrightarrow> y mod 4 = 0"
    using mod_mod_cancel [of 4 100 y] by simp
  note l = leap_count [of "y mod 400 = 0" "y mod 100 = 0" "y mod 4 = 0", OF d e]
  have "DayFromYear (y + 1) = DayFromYear y + 365 +
      ((if y mod 4 = 0 then 1 else 0) - (if y mod 100 = 0 then 1 else 0) + (if y mod 400 = 0 then 1 else 0))"
    unfolding DayFromYear_def a b c by (rule DayFromYear_Suc_aux)
  then show ?thesis by (simp only: l isLeapYear_def)
qed

lemma DayFromYear_mono_nat: "DayFromYear a \<le> DayFromYear (a + int n)"
proof (induction n)
  case 0 show ?case by simp
next
  case (Suc n)
  have "DayFromYear (a + int n) \<le> DayFromYear (a + int n + 1)"
    unfolding DayFromYear_Suc by simp
  with Suc show ?case by (simp add: algebra_simps)
qed

lemma DayFromYear_mono: "a \<le> b \<Longrightarrow> DayFromYear a \<le> DayFromYear b"
  using DayFromYear_mono_nat [of a "nat (b - a)"] by simp

lemma yearFromDay_unique:
  assumes "DayFromYear y \<le> D" "D < DayFromYear (y + 1)"
  shows "yearFromDay D = y"
proof (rule ccontr)
  assume ne: "yearFromDay D \<noteq> y"
  show False
  proof (cases "yearFromDay D < y")
    case True
    then have "DayFromYear (yearFromDay D + 1) \<le> DayFromYear y" by (intro DayFromYear_mono) simp
    with yearFromDay_bracket_hi [of D] assms show False by linarith
  next
    case False
    with ne have "DayFromYear (y + 1) \<le> DayFromYear (yearFromDay D)" by (intro DayFromYear_mono) simp
    with yearFromDay_bracket_lo [of D] assms show False by linarith
  qed
qed

section \<open>Dates returned by \<open>parseDate\<close>\<close>


lemma monthFromDay_range: "0 \<le> monthFromDay D \<and> monthFromDay D \<le> 11"
  by (simp add: monthFromDay_def Let_def)







lemma splitOn_nonempty: "splitOn c s \<noteq> []"
  by (induction s) (auto split: list.splits)

lemma hd_splitOn: "hd (splitOn c s) = takeWhile (\<lambda>x. x \<noteq> c) s"
  using splitOn_nonempty by (induction s) (auto split: list.splits)







section \<open>The row loop of \<open>processCSV\<close>\<close>

lemma csvRowStep_fields:
  "transactions (csvRowStep h acc i row) = transactions acc @ csvRowTransactions h row"
  "warnings (csvRowStep h acc i row) = warnings acc @ csvRowWarnings h i row"
  "errors (csvRowStep h acc i row) = errors acc"
  by (simp_all add: csvRowStep_def csvRowTransactions_def csvRowWarnings_def Let_def)

lemma forEachFrom_csv_transactions:
  "transactions (forEachFrom (csvRowStep h) i rows acc) =
     transactions acc @ concat (map (csvRowTransactions h) rows)"
  by (induction rows arbitrary: i acc) (simp_all add: csvRowStep_fields)


lemma forEachFrom_csv_warnings_keep:
  "set (warnings acc) \<subseteq> set (warnings (forEachFrom (csvRowStep h) i rows acc))"
proof (induction rows arbitrary: i acc)
  case Nil
  show ?case by simp
next
  case (Cons r rs)
  have "set (warnings acc) \<subseteq> set (warnings (csvRowStep h acc i r))"
    by (simp add: csvRowStep_fields)
  also have "\<dots> \<subseteq> set (warnings (forEachFrom (csvRowStep h) (Suc i) rs (csvRowStep h acc i r)))"
    by (rule Cons.IH)
  finally show ?case by simp
qed

lemma forEachFrom_csv_warnings:
  "k < length rows \<Longrightarrow>
   set (csvRowWarnings h (i + k) (rows ! k)) \<subseteq> set (warnings (forEachFrom (csvRowStep h) i rows acc))"
proof (induction rows arbitrary: i acc k)
  case Nil
  then show ?case by simp
next
  case (Cons r rs)
  note keep = forEachFrom_csv_warnings_keep
  show ?case
  proof (cases k)
    case 0
    then show ?thesis using keep [of "csvRowStep h acc i r" h "Suc i" rs]
      by (auto simp: csvRowStep_fields)
  next
    case (Suc k')
    with Cons.prems have "k' < length rs" by simp
    from Cons.IH [OF this, of "Suc i" "csvRowStep h acc i r"] Suc show ?thesis by simp
  qed
qed

lemma processCSV_transactions:
  "transactions (processCSV h (PapaComplete rows)) = concat (map (csvRowTransactions h) rows)"
  by (simp add: processCSV_def forEachFrom_csv_transactions emptyResult_def)

lemma processCSV_warnings:
  "k < length rows \<Longrightarrow>
   set (csvRowWarnings h k (rows ! k)) \<subseteq> set (warnings (processCSV h (PapaComplete rows)))"
  using forEachFrom_csv_warnings [of k rows h 0 emptyResult] by (simp add: processCSV_def)

lemma csvRowTransactions_cases:
  "csvRowTransactions h row = [] \<or>
   (\<exists>d a. parseDate h (firstTruthy row dateColumns) = Some d \<and> d \<noteq> [] \<and>
          parseAmount (firstTruthy row amountColumns) = Some a \<and> truthyN a \<and>
          csvRowTransactions h row = [rowTransaction d a (firstTruthy row descColumns)])"
  by (auto simp: csvRowTransactions_def split: option.splits)

section \<open>The row loop of \<open>processExcel\<close>\<close>

lemma excelRowStep_transactions:
  "transactions (excelRowStep h dc ac sc acc i row) = transactions acc @ excelRowTransactions h dc ac sc row"
  by (simp add: excelRowStep_def excelRowTry_def excelRowTransactions_def Let_def
      split: option.splits cell.splits)

lemma excelRowStep_warnings:
  "warnings (excelRowStep h dc ac sc acc i row) = warnings acc @ excelRowWarnings h dc ac i row"
  by (simp add: excelRowStep_def excelRowTry_def excelRowWarnings_def Let_def
      split: option.splits cell.splits)

lemma forEachFrom_excel_transactions:
  "transactions (forEachFrom (excelRowStep h dc ac sc) i rows acc) =
     transactions acc @ concat (map (excelRowTransactions h dc ac sc) rows)"
  by (induction rows arbitrary: i acc) (simp_all add: excelRowStep_transactions)

lemma forEachFrom_excel_warnings_keep:
  "set (warnings acc) \<subseteq> set (warnings (forEachFrom (excelRowStep h dc ac sc) i rows acc))"
proof (induction rows arbitrary: i acc)
  case Nil
  show ?case by simp
next
  case (Cons r rs)
  have "set (warnings acc) \<subseteq> set (warnings (excelRowStep h dc ac sc acc i r))"
    by (simp add: excelRowStep_warnings)
  also have "\<dots> \<subseteq> set (warnings (forEachFrom (excelRowStep h dc ac sc) (Suc i) rs (excelRowStep h dc ac sc acc i r)))"
    by (rule Cons.IH)
  finally show ?case by simp
qed

lemma forEachFrom_excel_warnings:
  "k < length rows \<Longrightarrow>
   set (excelRowWarnings h dc ac (i + k) (rows ! k))
     \<subseteq> set (warnings (forEachFrom (excelRowStep h dc ac sc) i rows acc))"
proof (induction rows arbitrary: i acc k)
  case Nil
  then show ?case by simp
next
  case (Cons r rs)
  show ?case
  proof (cases k)
    case 0
    then show ?thesis
      using forEachFrom_excel_warnings_keep [of "excelRowStep h dc ac sc acc i r" h dc ac sc "Suc i" rs]
      by (auto simp: excelRowStep_warnings)
  next
    case (Suc k')
    with Cons.prems have "k' < length rs" by simp
    from Cons.IH [OF this, of "Suc i" "excelRowStep h dc ac sc acc i r"] Suc show ?thesis by simp
  qed
qed

lemma processExcel_transactions:
  "transactions (processExcel h x) \<noteq> [] \<Longrightarrow>
   \<exists>jsonData dc ac sc. x = Sheet jsonData \<and> 2 \<le> length jsonData \<and>
      findColumn dateColumns (hd jsonData) 0 = Inr dc \<and>
      findColumn amountColumns (hd jsonData) 0 = Inr ac \<and>
      findColumn descColumns (hd jsonData) 0 = Inr sc \<and>
      transactions (processExcel h x) = concat (map (excelRowTransactions h dc ac sc) (tl jsonData))"
  by (auto simp: processExcel_def excelSheetTry_def failure_def emptyResult_def
      forEachFrom_excel_transactions split: xlsxResult.splits sum.splits if_splits)

lemma excelRowTransactions_cases:
  "t \<in> set (excelRowTransactions h dc ac sc row) \<Longrightarrow>
   \<exists>ds as s d a. cellAt row dc = Str ds \<and> parseDate h ds = Some d \<and> d \<noteq> [] \<and>
      cellAt row ac = Str as \<and> parseAmount as = Some a \<and> truthyN a \<and>
      cellAt row sc = Str s \<and> t = rowTransaction d a s"
proof -
  assume t: "t \<in> set (excelRowTransactions h dc ac sc row)"
  have ne: "excelRowTransactions h dc ac sc row \<noteq> []" using t by auto
  obtain d where d: "parseDateCell h (cellAt row dc) = Some d"
    using ne by (cases "parseDateCell h (cellAt row dc)") (auto simp: excelRowTransactions_def split: if_splits)
  obtain a where a: "parseAmountCell (cellAt row ac) = Some a"
    using ne d by (cases "parseAmountCell (cellAt row ac)") (auto simp: excelRowTransactions_def split: if_splits)
  have ok: "d \<noteq> [] \<and> truthyN a"
    using ne d a by (auto simp: excelRowTransactions_def split: if_splits)
  obtain s where s: "cellAt row sc = Str s"
    using ne d a ok by (cases "cellAt row sc") (auto simp: excelRowTransactions_def split: if_splits)
  have t': "t = rowTransaction d a s"
    using t d a ok s by (auto simp: excelRowTransactions_def split: if_splits)
  from d obtain ds where ds: "cellAt row dc = Str ds" "parseDate h ds = Some d"
    by (cases "cellAt row dc") auto
  from a obtain as where as: "cellAt row ac = Str as" "parseAmount as = Some a"
    by (cases "cellAt row ac") auto
  from ok ds as s t' show ?thesis by blast
qed

section \<open>The router and the errors of a sheet\<close>









lemma processExcel_sheet:
  assumes "2 \<le> length jsonData"
    and "findColumn dateColumns (hd jsonData) 0 = Inr dc"
    and "findColumn amountColumns (hd jsonData) 0 = Inr ac"
    and "findColumn descColumns (hd jsonData) 0 = Inr sc"
  shows "transactions (processExcel h (Sheet jsonData)) =
           concat (map (excelRowTransactions h dc ac sc) (tl jsonData))"
  using assms by (simp add: processExcel_def excelSheetTry_def forEachFrom_excel_transactions emptyResult_def)


section \<open>Amounts and merchants of accepted rows\<close>

lemma absN_not_NaN: "n \<noteq> NaN \<Longrightarrow> absN n \<noteq> NaN \<and> negN (absN n) \<noteq> NaN"
  by (cases n) auto

lemma parseAmount_not_NaN: "parseAmount s \<noteq> Some NaN"
  using absN_not_NaN by (auto simp: parseAmount_def Let_def split: if_splits)

lemma truthyN_nonzero: "truthyN a \<Longrightarrow> a \<noteq> Fin 0 \<and> a \<noteq> NaN"
  by (cases a) auto

lemma merchantOf_takeWhile:
  "merchantOf s = (if takeWhile (\<lambda>c. c \<noteq> 32) s = [] then js ''Unknown'' else takeWhile (\<lambda>c. c \<noteq> 32) s)"
  by (simp add: merchantOf_def hd_splitOn)

lemma merchantOf_firstToken:
  assumes "\<forall>c \<in> set s. isSpace c \<longrightarrow> c = 32" "s \<noteq> []" "hd s \<noteq> 32"
  shows "merchantOf s = firstToken s"
proof -
  have sp: "isSpace 32" by (simp add: isSpace_def)
  obtain x xs where s: "s = x # xs" using assms(2) by (cases s) auto
  have x: "\<not> isSpace x" using assms(1,3) s by auto
  have eq: "takeWhile (\<lambda>c. \<not> isSpace c) s = takeWhile (\<lambda>c. c \<noteq> 32) s"
    using assms(1) sp by (intro takeWhile_cong) auto
  have "firstToken s = takeWhile (\<lambda>c. c \<noteq> 32) s"
    using x s eq by (simp add: firstToken_def)
  moreover have "takeWhile (\<lambda>c. c \<noteq> 32) s \<noteq> []" using s assms(3) by simp
  ultimately show ?thesis by (simp add: merchantOf_takeWhile)
qed

lemma processExcel_warnings:
  assumes "2 \<le> length jsonData"
    and "findColumn dateColumns (hd jsonData) 0 = Inr dc"
    and "findColumn amountColumns (hd jsonData) 0 = Inr ac"
    and "findColumn descColumns (hd jsonData) 0 = Inr sc"
    and "k < length (tl jsonData)"
  shows "set (excelRowWarnings h dc ac (k + 1) (tl jsonData ! k))
           \<subseteq> set (warnings (processExcel h (Sheet jsonData)))"
  using assms forEachFrom_excel_warnings [of k "tl jsonData" h dc ac 1 sc]
  by (simp add: processExcel_def excelSheetTry_def)

lemma csv_transaction_row:
  assumes "t \<in> set (transactions (processCSV h (PapaComplete rows)))"
  shows "\<exists>row \<in> set rows. \<exists>d a. parseDate h (firstTruthy row dateColumns) = Some d \<and> d \<noteq> [] \<and>
           parseAmount (firstTruthy row amountColumns) = Some a \<and> truthyN a \<and>
           t = rowTransaction d a (firstTruthy row descColumns)"
proof -
  from assms obtain row where row: "row \<in> set rows" "t \<in> set (csvRowTransactions h row)"
    by (auto simp: processCSV_transactions)
  from csvRowTransactions_cases [of h row] row(2) obtain d a where
    "parseDate h (firstTruthy row dateColumns) = Some d" "d \<noteq> []"
    "parseAmount (firstTruthy row amountColumns) = Some a" "truthyN a"
    "t = rowTransaction d a (firstTruthy row descColumns)" by auto
  with row(1) show ?thesis by blast
qed

lemma excel_transaction_row:
  assumes "t \<in> set (transactions (processExcel h x))"
  shows "\<exists>jsonData dc ac sc row ds as s d a.
           x = Sheet jsonData \<and> 2 \<le> length jsonData \<and>
           findColumn dateColumns (hd jsonData) 0 = Inr dc \<and>
           findColumn amountColumns (hd jsonData) 0 = Inr ac \<and>
           findColumn descColumns (hd jsonData) 0 = Inr sc \<and>
           row \<in> set (tl jsonData) \<and>
           cellAt row dc = Str ds \<and> parseDate h ds = Some d \<and> d \<noteq> [] \<and>
           cellAt row ac = Str as \<and> parseAmount as = Some a \<and> truthyN a \<and>
           cellAt row sc = Str s \<and> t = rowTransaction d a s"
proof -
  from assms have "transactions (processExcel h x) \<noteq> []" by auto
  from processExcel_transactions [OF this] obtain jsonData dc ac sc where
    x: "x = Sheet jsonData" "2 \<le> length jsonData"
      "findColumn dateColumns (hd jsonData) 0 = Inr dc"
      "findColumn amountColumns (hd jsonData) 0 = Inr ac"
      "findColumn descColumns (hd jsonData) 0 = Inr sc"
    and tr: "transactions (processExcel h x) = concat (map (excelRowTransactions h dc ac sc) (tl jsonData))"
    by blast
  from assms tr obtain row where row: "row \<in> set (tl jsonData)" "t \<in> set (excelRowTransactions h dc ac sc row)"
    by auto
  from excelRowTransactions_cases [OF row(2)] x row(1) show ?thesis by blast
qed

lemma rowTransaction_fields:
  "date (rowTransaction d a s) = d" "amount (rowTransaction d a s) = a"
  "merchant (rowTransaction d a s) = merchantOf s"
  "category (rowTransaction d a s) = categorizeTransaction s None"
  by (simp_all add: rowTransaction_def)

lemma csv_amount_nonzero:
  "t \<in> set (transactions (processCSV h (PapaComplete rows))) \<Longrightarrow> amount t \<noteq> Fin 0"
  using csv_transaction_row [of t h rows] truthyN_nonzero by (auto simp: rowTransaction_fields)

lemma excel_amount_nonzero:
  "u \<in> set (transactions (processExcel h x)) \<Longrightarrow> amount u \<noteq> Fin 0"
  using excel_transaction_row [of u h x] truthyN_nonzero by (auto simp: rowTransaction_fields)





lemma csvRowTransactions_accepted:
  assumes "t \<in> set (csvRowTransactions h row)"
  shows "\<exists>d a. parseDate h (firstTruthy row dateColumns) = Some d \<and> d \<noteq> [] \<and>
           parseAmount (firstTruthy row amountColumns) = Some a \<and> truthyN a \<and>
           t = rowTransaction d a (firstTruthy row descColumns)"
  using csvRowTransactions_cases [of h row] assms by auto

lemma csv_transaction_of_row:
  assumes "t \<in> set (transactions (processCSV h (PapaComplete rows)))"
  shows "\<exists>row \<in> set rows. t \<in> set (csvRowTransactions h row)"
  using assms by (auto simp: processCSV_transactions)

lemma excel_transaction_of_row:
  assumes "u \<in> set (transactions (processExcel h x))"
  shows "\<exists>jsonData dc ac sc cells.
           x = Sheet jsonData \<and> 2 \<le> length jsonData \<and>
           findColumn dateColumns (hd jsonData) 0 = Inr dc \<and>
           findColumn amountColumns (hd jsonData) 0 = Inr ac \<and>
           findColumn descColumns (hd jsonData) 0 = Inr sc \<and>
           cells \<in> set (tl jsonData) \<and> u \<in> set (excelRowTransactions h dc ac sc cells)"
proof -
  from assms have "transactions (processExcel h x) \<noteq> []" by auto
  from processExcel_transactions [OF this] obtain jsonData dc ac sc where
    x: "x = Sheet jsonData" "2 \<le> length jsonData"
      "findColumn dateColumns (hd jsonData) 0 = Inr dc"
      "findColumn amountColumns (hd jsonData) 0 = Inr ac"
      "findColumn descColumns (hd jsonData) 0 = Inr sc"
    and tr: "transactions (processExcel h x) = concat (map (excelRowTransactions h dc ac sc) (tl jsonData))"
    by blast
  from assms tr obtain cells where "cells \<in> set (tl jsonData)" "u \<in> set (excelRowTransactions h dc ac sc cells)"
    by auto
  with x show ?thesis by blast
qed



lemma absN_zero: "absN n = Fin 0 \<longleftrightarrow> n = Fin 0" "negN (absN n) = Fin 0 \<longleftrightarrow> n = Fin 0"
  by (cases n; simp)+

lemma parseAmount_None_iff:
  "parseAmount s = None \<longleftrightarrow> s = [] \<or> parseFloat (numericText s) = NaN"
  by (simp add: parseAmount_def numericText_def Let_def)

lemma parseAmount_zero_iff:
  "parseAmount s = Some (Fin 0) \<longleftrightarrow> s \<noteq> [] \<and> parseFloat (numericText s) = Fin 0"
  by (auto simp: parseAmount_def numericText_def Let_def absN_zero)

lemma concat_map_without:
  "k < length xs \<Longrightarrow> f (xs ! k) = [] \<Longrightarrow>
   concat (map f xs) = concat (map f (take k xs @ drop (Suc k) xs))"
proof (induction xs arbitrary: k)
  case Nil
  then show ?case by simp
next
  case (Cons x xs)
  then show ?case by (cases k) simp_all
qed

lemma processCSV_without_row:
  assumes "k < length rows" "csvRowTransactions h (rows ! k) = []"
  shows "transactions (processCSV h (PapaComplete rows)) =
         transactions (processCSV h (PapaComplete (take k rows @ drop (Suc k) rows)))"
  using concat_map_without [of k rows "csvRowTransactions h"] assms by (simp only: processCSV_transactions)

lemma processExcel_short: "length d < 2 \<Longrightarrow> transactions (processExcel h (Sheet d)) = []"
  by (simp add: processExcel_def excelSheetTry_def failure_def)

lemma processExcel_without_row:
  assumes "2 \<le> length jsonData"
    and "findColumn dateColumns (hd jsonData) 0 = Inr dc"
    and "findColumn amountColumns (hd jsonData) 0 = Inr ac"
    and "findColumn descColumns (hd jsonData) 0 = Inr sc"
    and "j < length (tl jsonData)" "excelRowTransactions h dc ac sc (tl jsonData ! j) = []"
  shows "transactions (processExcel h (Sheet jsonData)) =
         transactions (processExcel h (Sheet (hd jsonData # take j (tl jsonData) @ drop (Suc j) (tl jsonData))))"
proof -
  define rest where "rest = take j (tl jsonData) @ drop (Suc j) (tl jsonData)"
  have old: "transactions (processExcel h (Sheet jsonData)) =
      concat (map (excelRowTransactions h dc ac sc) rest)"
    unfolding rest_def
    using processExcel_sheet [OF assms(1-4), of h]
      concat_map_without [of j "tl jsonData" "excelRowTransactions h dc ac sc"] assms(5,6) by simp
  have "transactions (processExcel h (Sheet (hd jsonData # rest))) =
      concat (map (excelRowTransactions h dc ac sc) rest)"
  proof (cases rest)
    case Nil
    then show ?thesis by (simp add: processExcel_short)
  next
    case (Cons r rs)
    then have "2 \<le> length (hd jsonData # rest)" by simp
    from processExcel_sheet [OF this, of dc ac sc h] assms(2-4) show ?thesis by simp
  qed
  with old show ?thesis unfolding rest_def by simp
qed

lemma csv_row_merchant:
  assumes "t \<in> set (csvRowTransactions h row)"
  shows "merchant t = merchantOf (firstTruthy row descColumns)"
  using csvRowTransactions_accepted [OF assms] by (auto simp: rowTransaction_fields)

lemma excel_row_merchant:
  assumes "u \<in> set (excelRowTransactions h dc ac sc cells)"
  shows "\<exists>s. cellAt cells sc = Str s \<and> merchant u = merchantOf s"
  using excelRowTransactions_cases [OF assms] by (auto simp: rowTransaction_fields)

section \<open>Evaluation\<close>

lemma replicate_num: "replicate (numeral k) x = x # replicate (pred_numeral k) x"
  by (simp add: numeral_eq_Suc)

lemma let_arg_cong: "s = t \<Longrightarrow> Let s f = Let t f"
  by simp

lemmas str_ev = js_def isSpace_def isDigit_def startsWith_def endsWith_def trim_def has_def
  toLowerCase_def lowerUnit_def rupee_def euro_def pound_def showNat.simps pad_def replicate_num Let_def

lemmas re_ev = charsOf_def replaceAll_def replaceFirst_def inRanges_def oneOrMore_def spaceCls_def
  digitCls_def wordCls_def alphaCls_def optional_def chr_def chri_def liti_def lit_def
  regexMatch_def groupText_def digits12_def

lemmas num_ev = digitsValue_def exponentPart_def scale10_def parseFloat_def unsignedLiteral_def
  parseInt_def unsignedInt_def isHexDigit_def hexDigitValue_def hexValue_def

lemmas date_ev = msPerDay_def isLeapYear_def DayFromYear_def monthStart_def MakeDay_def TimeClip_def
  newDate_def newDateString_def yearFromDay_def monthFromDay_def dateFromDay_def localDay_def
  getFullYear_def getMonth_def getDate_def isoYear_def toISOString_def isoDay_def
  datePrefix_def DATE_FORMATS_def orderParts_def expandYear_def tryFormat_def parseDate_def
  monthNames_def monthIndexOf_def digits12_def monthFirst_def dayFirst_def monthNameDate_def
  tryFormat_Universal_def parseDate_Universal_def parseDate_PhonePe_def

lemmas row_ev = merchantOf_def rowTransaction_def dateWarning_def amountWarning_def
  dateColumns_def amountColumns_def descColumns_def papaRow_def csvRowStep_def emptyResult_def
  failure_def processCSV_def categorizeTransaction_def keywordCategory_def
  errorString_def excelRowTry_def excelRowStep_def excelSheetTry_def processExcel_def

lemma parseDate_empty: "parseDate h [] = None"
  by (simp add: parseDate_def)

lemma parseAmount_empty: "parseAmount [] = None"
  by (simp add: parseAmount_def)

lemma parseDate_15_02_2025_utc: "parseDate (h \<lparr> tzOffset := 0 \<rparr>) (js ''15/02/2025'') = Some (js ''2025-02-15'')"
  by (simp add: str_ev re_ev num_ev date_ev cong: let_arg_cong)

lemma parseDate_15_02_2025_ist: "parseDate (h \<lparr> tzOffset := 330 \<rparr>) (js ''15/02/2025'') = Some (js ''2025-02-14'')"
  by (simp add: str_ev re_ev num_ev date_ev cong: let_arg_cong)

lemma parseAmount_500: "parseAmount (js ''500'') = Some (Fin 500)"
  by (simp add: parseAmount_def str_ev re_ev num_ev cong: let_arg_cong)

lemma categorize_Swiggy_Food_Order: "categorizeTransaction (js ''Swiggy Food Order'') None = js ''Food''"
  by (simp add: categorizeTransaction_def keywordCategory_def str_ev)

lemma merchantOf_Swiggy_Food_Order: "merchantOf (js ''Swiggy Food Order'') = js ''Swiggy''"
  by (simp add: merchantOf_def str_ev)

text \<open>
  C5. Scenario A. With the header \<open>Date,Amount,Description\<close> the row object
  has the keys \<open>Date\<close>, \<open>Amount\<close> and \<open>Description\<close>; \<open>processCSV\<close> looks
  up the lower-case names only, finds nothing, and returns no transaction
  and two warnings. With the header in lower case the transaction is there,
  dated 2025-02-15 on a host at UTC and 2025-02-14 on a host at +05:30.
\<close>

theorem C5_scenarioA_capital_header:
  "processCSV h (scenarioA (map js [''Date'', ''Amount'', ''Description''])) =
     \<lparr> transactions = [], errors = [],
       warnings = [js ''Row 1: Could not parse date '' @ [34, 34],
                   js ''Row 1: Could not parse amount '' @ [34, 34]] \<rparr>
   \<and> transactions (processCSV (h \<lparr> tzOffset := 0 \<rparr>) (scenarioA (map js [''date'', ''amount'', ''description'']))) =
     [\<lparr> date = js ''2025-02-15'', amount = Fin 500, description = js ''Swiggy Food Order'',
        category = js ''Food'', paymentMode = js ''UPI'', merchant = js ''Swiggy'' \<rparr>]
   \<and> map date (transactions (processCSV (h \<lparr> tzOffset := 330 \<rparr>) (scenarioA (map js [''date'', ''amount'', ''description''])))) =
     [js ''2025-02-14'']"
  by (simp add: scenarioA_def row_ev str_ev parseDate_empty parseAmount_empty
      parseDate_15_02_2025_utc [unfolded js_def, simplified]
      parseDate_15_02_2025_ist [unfolded js_def, simplified]
      parseAmount_500 [unfolded js_def, simplified] cong: let_arg_cong)

text \<open>
  C7. \<open>parseAmount("Rs. 1,234.50 Dr")\<close>. In \<open>part_005\<close> the class
  \<open>[()DrCr]\<close> deletes \<open>D\<close> and \<open>r\<close> but leaves \<open>Rs.\<close>, so
  \<open>parseFloat\<close> sees \<open>Rs.1234.50\<close> and the result is \<open>null\<close>. In
  \<open>UniversalUPIProcessor\<close> the suffix \<open>Dr\<close> is stripped before the test
  for a debit marker, so the result is +1234.5.
\<close>

theorem C7_parseAmount_Rs_Dr:
  "parseAmount (js ''Rs. 1,234.50 Dr'') = None \<and>
   parseAmount_Universal (js ''Rs. 1,234.50 Dr'') = Some (Fin (2469 / 2))"
  by (simp add: parseAmount_def parseAmount_Universal_def currencyWord_def str_ev re_ev num_ev
      cong: let_arg_cong)

lemmas pp_ev = phonePePattern_def parsePhonePeTransactions_def phonePeTransaction_def
  processPhonePePDFClientSide_def categorizeTransaction_PhonePe_def keywordCategory_def
  reading_def scenarioC_def

lemma parsePhonePe_scenarioC:
  "parsePhonePeTransactions scenarioC =
     [\<lparr> txDate = js ''Feb 13, 2025'', txMerchant = js ''Swiggy'', txType = js ''DEBIT'',
        txAmount = js ''250'' \<rparr>]"
  by (simp add: pp_ev str_ev re_ev cong: let_arg_cong)

lemma isoDay_Feb13_utc: "isoDay (MakeDay 2025 1 13 * msPerDay) = js ''2025-02-13''"
  by (simp add: str_ev date_ev cong: let_arg_cong)

lemma isoDay_Feb13_ist: "isoDay (MakeDay 2025 1 13 * msPerDay - 330 * 60000) = js ''2025-02-12''"
  by (simp add: str_ev date_ev cong: let_arg_cong)

lemma parseFloat_250: "parseFloat (js ''250'') = Fin 250"
  by (simp add: str_ev num_ev cong: let_arg_cong)

lemma categorize_Swiggy: "categorizeTransaction_PhonePe (js ''Swiggy'') = js ''Food''"
  by (simp add: pp_ev str_ev)

text \<open>
  C3. Scenario C. The pattern finds the one match (\<open>Feb 13, 2025\<close>,
  \<open>Swiggy\<close>, \<open>DEBIT\<close>, \<open>250\<close>), and the transaction has amount -250,
  merchant \<open>Swiggy\<close> and category \<open>Food\<close>. Its date is printed by
  \<open>toISOString\<close>, in UTC, from the local midnight that \<open>new Date\<close> read:
  2025-02-13 on a host at UTC, 2025-02-12 on a host at +05:30.
\<close>

theorem C3_scenarioC_date_by_zone:
  "transactions (processPhonePePDFClientSide
      (reading (h \<lparr> tzOffset := 0 \<rparr>) (js ''Feb 13, 2025'') 2025 2 13) scenarioC) =
     [\<lparr> date = js ''2025-02-13'', amount = Fin (- 250), description = js ''PhonePe DEBIT to Swiggy'',
        category = js ''Food'', paymentMode = js ''UPI'', merchant = js ''Swiggy'' \<rparr>]
   \<and> transactions (processPhonePePDFClientSide
      (reading (h \<lparr> tzOffset := 330 \<rparr>) (js ''Feb 13, 2025'') 2025 2 13) scenarioC) =
     [\<lparr> date = js ''2025-02-12'', amount = Fin (- 250), description = js ''PhonePe DEBIT to Swiggy'',
        category = js ''Food'', paymentMode = js ''UPI'', merchant = js ''Swiggy'' \<rparr>]"
proof -
  have d0: "parseDate_PhonePe (reading (h \<lparr> tzOffset := 0 \<rparr>) (js ''Feb 13, 2025'') 2025 2 13)
      (js ''Feb 13, 2025'') = Some (js ''2025-02-13'')"
    using isoDay_Feb13_utc
    by (simp add: parseDate_PhonePe_def newDateString_def reading_def newDate_def TimeClip_def
        MakeDay_def DayFromYear_def monthStart_def isLeapYear_def msPerDay_def)
  have d1: "parseDate_PhonePe (reading (h \<lparr> tzOffset := 330 \<rparr>) (js ''Feb 13, 2025'') 2025 2 13)
      (js ''Feb 13, 2025'') = Some (js ''2025-02-12'')"
    using isoDay_Feb13_ist
    by (simp add: parseDate_PhonePe_def newDateString_def reading_def newDate_def TimeClip_def
        MakeDay_def DayFromYear_def monthStart_def isLeapYear_def msPerDay_def)
  have ne: "js ''2025-02-13'' \<noteq> []" "js ''2025-02-12'' \<noteq> []" "js ''250'' \<noteq> []"
    by (simp_all add: js_def)
  show ?thesis
    by (simp add: processPhonePePDFClientSide_def phonePeTransaction_def parsePhonePe_scenarioC
        d0 d1 ne parseFloat_250 categorize_Swiggy) (simp add: js_def)
qed

section \<open>The example rows\<close>


lemma parseAmount_abc: "parseAmount (js ''abc'') = None"
  by (simp add: parseAmount_def str_ev re_ev num_ev cong: let_arg_cong)

lemma hostAt_utc: "hostAt 0 = (hostAt 0) \<lparr> tzOffset := 0 \<rparr>"
  by (simp add: hostAt_def)

lemma parseAmount_0: "parseAmount (js ''0'') = Some (Fin 0)"
  by (simp add: parseAmount_def str_ev re_ev num_ev cong: let_arg_cong)

lemma parseDate_15_02_2025_hostAt: "parseDate (hostAt 0) (js ''15/02/2025'') = Some (js ''2025-02-15'')"
  using parseDate_15_02_2025_utc [of "hostAt 0"] hostAt_utc by simp

lemmas ex_ev = exampleRows_def exampleCells_def exampleHeader_def exampleSheet_def swiggy_def

lemma processCSV_exampleRows:
  "processCSV (hostAt 0) (PapaComplete exampleRows) =
     \<lparr> transactions = [swiggy], errors = [],
       warnings = [dateWarning 2 [], amountWarning 2 (js ''abc''), amountWarning 3 (js ''0'')] \<rparr>"
  by (simp add: ex_ev row_ev str_ev parseDate_empty
      parseDate_15_02_2025_hostAt [unfolded js_def, simplified]
      parseAmount_500 [unfolded js_def, simplified]
      parseAmount_abc [unfolded js_def, simplified]
      parseAmount_0 [unfolded js_def, simplified] cong: let_arg_cong)

lemma findColumn_exampleSheet:
  "findColumn dateColumns (hd exampleSheet) 0 = Inr (Some 0)"
  "findColumn amountColumns (hd exampleSheet) 0 = Inr (Some 1)"
  "findColumn descColumns (hd exampleSheet) 0 = Inr (Some 2)"
  by (simp_all add: ex_ev row_ev str_ev)

lemma processExcel_exampleSheet:
  "processExcel (hostAt 0) (Sheet exampleSheet) =
     \<lparr> transactions = [swiggy], errors = [],
       warnings = [dateWarning 3 [], amountWarning 3 (js ''abc''), amountWarning 4 (js ''0'')] \<rparr>"
  by (simp add: ex_ev row_ev str_ev parseDate_empty
      parseDate_15_02_2025_hostAt [unfolded js_def, simplified]
      parseAmount_500 [unfolded js_def, simplified]
      parseAmount_abc [unfolded js_def, simplified]
      parseAmount_0 [unfolded js_def, simplified] cong: let_arg_cong)

lemma exampleRows_nth:
  "length exampleRows = 3"
  "firstTruthy (exampleRows ! 1) dateColumns = []"
  "firstTruthy (exampleRows ! 1) amountColumns = js ''abc''"
  "firstTruthy (exampleRows ! 2) amountColumns = js ''0''"
  by (simp_all add: ex_ev row_ev str_ev)

lemma exampleSheet_nth:
  "length exampleSheet = 4"
  "tl exampleSheet ! 1 = [Str [], Str (js ''abc''), Str (js ''x'')]"
  "tl exampleSheet ! 2 = map Str (map js [''15/02/2025'', ''0'', ''x''])"
  by (simp_all add: ex_ev)

lemma parseAmount_0_00: "parseAmount (js ''0.00'') = Some (Fin 0)"
  by (simp add: parseAmount_def str_ev re_ev num_ev cong: let_arg_cong)

lemma parseAmount_rupee_0: "parseAmount (rupee # js ''0'') = Some (Fin 0)"
  by (simp add: parseAmount_def str_ev re_ev num_ev cong: let_arg_cong)

lemma parseFloat_numericText_0_00: "parseFloat (numericText (js ''0.00'')) = Fin 0"
  by (simp add: numericText_def str_ev re_ev num_ev cong: let_arg_cong)

lemma parseAmount_250: "parseAmount (js ''250'') = Some (Fin 250)"
  by (simp add: parseAmount_def str_ev re_ev num_ev cong: let_arg_cong)

lemma merchantOf_leading_space: "merchantOf (js '' Swiggy Food Order'') = js ''Unknown''"
  by (simp add: merchantOf_def str_ev)

lemma firstToken_leading_space: "firstToken (js '' Swiggy Food Order'') = js ''Swiggy''"
  by (simp add: firstToken_def str_ev)

lemma categorize_leading_space: "categorizeTransaction (js '' Swiggy Food Order'') None = js ''Food''"
  by (simp add: categorizeTransaction_def keywordCategory_def str_ev)

lemma parseDate_31_04_2025_utc: "parseDate (h \<lparr> tzOffset := 0 \<rparr>) (js ''31/04/2025'') = Some (js ''2025-05-01'')"
  by (simp add: str_ev re_ev num_ev date_ev cong: let_arg_cong)

lemma parseDate_Universal_31_04_2025_utc: "parseDate_Universal (h \<lparr> tzOffset := 0 \<rparr>) (js ''31/04/2025'') = None"
  by (simp add: str_ev re_ev num_ev date_ev cong: let_arg_cong)

lemma parseDate_Universal_15_02_2025_ist:
  "parseDate_Universal (h \<lparr> tzOffset := 330 \<rparr>) (js ''15/02/2025'') = Some (js ''2025-02-14'')"
  by (simp add: str_ev re_ev num_ev date_ev cong: let_arg_cong)

lemma parseDate_Universal_15_02_2025_utc:
  "parseDate_Universal (h \<lparr> tzOffset := 0 \<rparr>) (js ''15/02/2025'') = Some (js ''2025-02-15'')"
  by (simp add: str_ev re_ev num_ev date_ev cong: let_arg_cong)

lemma processCSV_leadingSpaceRows:
  "map merchant (transactions (processCSV (hostAt 0) (PapaComplete leadingSpaceRows))) = [js ''Unknown'']"
  by (simp add: leadingSpaceRows_def ex_ev row_ev str_ev
      parseDate_15_02_2025_hostAt [unfolded js_def, simplified]
      parseAmount_500 [unfolded js_def, simplified] cong: let_arg_cong)

lemma firstTruthy_leadingSpaceRows:
  "firstTruthy (hd leadingSpaceRows) descColumns = js '' Swiggy Food Order''"
  by (simp add: leadingSpaceRows_def ex_ev row_ev str_ev)





lemma exampleRows_first:
  "csvRowTransactions (hostAt 0) (exampleRows ! 0) = [swiggy]"
  by (simp add: csvRowTransactions_def ex_ev row_ev str_ev
      parseDate_15_02_2025_hostAt [unfolded js_def, simplified]
      parseAmount_500 [unfolded js_def, simplified] cong: let_arg_cong)

lemma exampleSheet_first:
  "excelRowTransactions (hostAt 0) (Some 0) (Some 1) (Some 2) (tl exampleSheet ! 0) = [swiggy]"
  by (simp add: excelRowTransactions_def ex_ev row_ev str_ev
      parseDate_15_02_2025_hostAt [unfolded js_def, simplified]
      parseAmount_500 [unfolded js_def, simplified] cong: let_arg_cong)

lemma exampleSheet_columns:
  "2 \<le> length exampleSheet \<and> findColumn dateColumns (hd exampleSheet) 0 = Inr (Some 0) \<and>
   findColumn amountColumns (hd exampleSheet) 0 = Inr (Some 1) \<and>
   findColumn descColumns (hd exampleSheet) 0 = Inr (Some 2)"
  using exampleSheet_nth by (simp add: findColumn_exampleSheet)

lemma exampleRows_description:
  "firstTruthy (exampleRows ! 0) descColumns = js ''Swiggy Food Order''"
  "cellAt (tl exampleSheet ! 0) (Some 2) = Str (js ''Swiggy Food Order'')"
  by (simp_all add: ex_ev row_ev str_ev)

section \<open>Results on the router and the row loops\<close>






text \<open>
  C4. A sheet with a \<open>Credit\<close> and a \<open>Debit\<close> column, and the row with
  Credit 0 and Debit 250. \<open>processExcel\<close> has one amount column, the first
  header that contains one of the names of \<open>amountColumns\<close>; nothing
  subtracts. With \<open>Credit\<close> first the amount read is 0 and the row is
  dropped with a warning (as text or as numeric cells); with \<open>Debit\<close> first
  the amount is +250.
\<close>

theorem C4_credit_debit_columns:
  "processExcel (h \<lparr> tzOffset := 0 \<rparr>) (Sheet creditFirst) =
     \<lparr> transactions = [], errors = [], warnings = [amountWarning 2 (js ''0'')] \<rparr> \<and>
   processExcel (h \<lparr> tzOffset := 0 \<rparr>) (Sheet creditFirstNumeric) =
     \<lparr> transactions = [], errors = [], warnings = [amountWarning 2 (numberToString h (Fin 0))] \<rparr> \<and>
   map amount (transactions (processExcel (h \<lparr> tzOffset := 0 \<rparr>) (Sheet debitFirst))) = [Fin 250]"
  by (simp add: creditFirst_def creditFirstNumeric_def debitFirst_def row_ev str_ev
      parseDate_15_02_2025_utc [unfolded js_def, simplified]
      parseAmount_250 [unfolded js_def, simplified]
      parseAmount_0 [unfolded js_def, simplified] cong: let_arg_cong)

text \<open>
  C6. \<open>parseDate("31/04/2025")\<close>. In \<open>part_005\<close> only the year of the
  constructed date is compared, so the 31st of April rolls over to the 1st
  of May and is returned; \<open>UniversalUPIProcessor\<close> compares year, month and
  day and returns \<open>null\<close>. Both build the date at local midnight and print
  it in UTC, so on a host at +05:30 the text 15/02/2025 comes back as
  2025-02-14.
\<close>

theorem C6_parseDate_rolls_over:
  "parseDate (h \<lparr> tzOffset := 0 \<rparr>) (js ''31/04/2025'') = Some (js ''2025-05-01'') \<and>
   parseDate_Universal (h \<lparr> tzOffset := 0 \<rparr>) (js ''31/04/2025'') = None \<and>
   parseDate (h \<lparr> tzOffset := 330 \<rparr>) (js ''15/02/2025'') = Some (js ''2025-02-14'') \<and>
   parseDate_Universal (h \<lparr> tzOffset := 330 \<rparr>) (js ''15/02/2025'') = Some (js ''2025-02-14'') \<and>
   parseDate (h \<lparr> tzOffset := 0 \<rparr>) (js ''15/02/2025'') = Some (js ''2025-02-15'')"
  by (simp add: parseDate_31_04_2025_utc parseDate_Universal_31_04_2025_utc parseDate_15_02_2025_ist
      parseDate_Universal_15_02_2025_ist parseDate_15_02_2025_utc)

text \<open>
  C8. \<open>parseAmount\<close> has no test for zero: for \<open>0\<close>, \<open>0.00\<close> and the
  rupee sign before \<open>0\<close> it returns the number 0, not \<open>null\<close>.
\<close>

theorem C8_parseAmount_returns_zero:
  "parseAmount (js ''0'') = Some (Fin 0) \<and> parseAmount (js ''0.00'') = Some (Fin 0) \<and>
   parseAmount (rupee # js ''0'') = Some (Fin 0)"
  by (simp add: parseAmount_0 parseAmount_0_00 parseAmount_rupee_0)

text \<open>
  C8, as amended. \<open>parseAmount\<close> returns \<open>null\<close> exactly for the empty
  token and for a token whose numeric text \<open>parseFloat\<close> cannot read; for
  a token whose numeric text reads as zero it returns the number 0, and it
  never returns NaN. The zero is rejected one step later, by the test
  \<open>!amount\<close> of the row loops: the transactions of a file are what its
  rows add, a CSV or Excel row whose amount parses to 0 adds nothing and
  leaves the amount warning, the transactions are those of the file without
  that row, and no transaction of either processor has amount 0.
\<close>

theorem C8_zero_amount_dropped_by_rows:
  "(parseAmount s = None) = (s = [] \<or> parseFloat (numericText s) = NaN) \<and>
   (parseAmount s = Some (Fin 0)) = (s \<noteq> [] \<and> parseFloat (numericText s) = Fin 0) \<and>
   parseAmount s \<noteq> Some NaN \<and>
   transactions (processCSV h (PapaComplete rows)) = concat (map (csvRowTransactions h) rows) \<and>
   (k < length rows \<and> parseAmount (firstTruthy (rows ! k) amountColumns) = Some (Fin 0) \<longrightarrow>
      csvRowTransactions h (rows ! k) = [] \<and>
      amountWarning (k + 1) (firstTruthy (rows ! k) amountColumns)
        \<in> set (warnings (processCSV h (PapaComplete rows))) \<and>
      transactions (processCSV h (PapaComplete rows)) =
        transactions (processCSV h (PapaComplete (take k rows @ drop (Suc k) rows)))) \<and>
   (2 \<le> length jsonData \<and> findColumn dateColumns (hd jsonData) 0 = Inr dc \<and>
    findColumn amountColumns (hd jsonData) 0 = Inr ac \<and>
    findColumn descColumns (hd jsonData) 0 = Inr sc \<longrightarrow>
      transactions (processExcel h (Sheet jsonData)) =
        concat (map (excelRowTransactions h dc ac sc) (tl jsonData))) \<and>
   (2 \<le> length jsonData \<and> findColumn dateColumns (hd jsonData) 0 = Inr dc \<and>
    findColumn amountColumns (hd jsonData) 0 = Inr ac \<and>
    findColumn descColumns (hd jsonData) 0 = Inr sc \<and>
    j < length (tl jsonData) \<and> tl jsonData ! j \<noteq> [] \<and>
    parseAmountCell (cellAt (tl jsonData ! j) ac) = Some (Fin 0) \<longrightarrow>
      excelRowTransactions h dc ac sc (tl jsonData ! j) = [] \<and>
      amountWarning (j + 2) (cellString h (cellAt (tl jsonData ! j) ac))
        \<in> set (warnings (processExcel h (Sheet jsonData))) \<and>
      transactions (processExcel h (Sheet jsonData)) =
        transactions (processExcel h
          (Sheet (hd jsonData # take j (tl jsonData) @ drop (Suc j) (tl jsonData))))) \<and>
   (t \<in> set (transactions (processCSV h (PapaComplete rows))) \<longrightarrow> amount t \<noteq> Fin 0) \<and>
   (u \<in> set (transactions (processExcel h x)) \<longrightarrow> amount u \<noteq> Fin 0)"
proof (intro conjI impI)
  show "(parseAmount s = None) = (s = [] \<or> parseFloat (numericText s) = NaN)"
    by (rule parseAmount_None_iff)
next
  show "(parseAmount s = Some (Fin 0)) = (s \<noteq> [] \<and> parseFloat (numericText s) = Fin 0)"
    by (rule parseAmount_zero_iff)
next
  show "parseAmount s \<noteq> Some NaN" by (rule parseAmount_not_NaN)
next
  show "transactions (processCSV h (PapaComplete rows)) = concat (map (csvRowTransactions h) rows)"
    by (rule processCSV_transactions)
next
  assume k: "k < length rows \<and> parseAmount (firstTruthy (rows ! k) amountColumns) = Some (Fin 0)"
  then show e: "csvRowTransactions h (rows ! k) = []"
    by (auto simp: csvRowTransactions_def split: option.splits)
  from k processCSV_warnings [of k rows h]
  show "amountWarning (k + 1) (firstTruthy (rows ! k) amountColumns)
        \<in> set (warnings (processCSV h (PapaComplete rows)))"
    by (auto simp: csvRowWarnings_def)
  from k e show "transactions (processCSV h (PapaComplete rows)) =
        transactions (processCSV h (PapaComplete (take k rows @ drop (Suc k) rows)))"
    by (intro processCSV_without_row) simp_all
next
  assume "2 \<le> length jsonData \<and> findColumn dateColumns (hd jsonData) 0 = Inr dc \<and>
    findColumn amountColumns (hd jsonData) 0 = Inr ac \<and>
    findColumn descColumns (hd jsonData) 0 = Inr sc"
  then show "transactions (processExcel h (Sheet jsonData)) =
        concat (map (excelRowTransactions h dc ac sc) (tl jsonData))"
    by (intro processExcel_sheet) simp_all
next
  assume a: "2 \<le> length jsonData \<and> findColumn dateColumns (hd jsonData) 0 = Inr dc \<and>
    findColumn amountColumns (hd jsonData) 0 = Inr ac \<and>
    findColumn descColumns (hd jsonData) 0 = Inr sc \<and>
    j < length (tl jsonData) \<and> tl jsonData ! j \<noteq> [] \<and>
    parseAmountCell (cellAt (tl jsonData ! j) ac) = Some (Fin 0)"
  then show e: "excelRowTransactions h dc ac sc (tl jsonData ! j) = []"
    by (auto simp: excelRowTransactions_def split: option.splits)
  from a processExcel_warnings [of jsonData dc ac sc j h]
  show "amountWarning (j + 2) (cellString h (cellAt (tl jsonData ! j) ac))
        \<in> set (warnings (processExcel h (Sheet jsonData)))"
    by (auto simp: excelRowWarnings_def)
  from a e show "transactions (processExcel h (Sheet jsonData)) =
        transactions (processExcel h
          (Sheet (hd jsonData # take j (tl jsonData) @ drop (Suc j) (tl jsonData))))"
    by (intro processExcel_without_row [where dc = dc and ac = ac and sc = sc]) simp_all
next
  assume "t \<in> set (transactions (processCSV h (PapaComplete rows)))"
  then show "amount t \<noteq> Fin 0" by (rule csv_amount_nonzero)
next
  assume "u \<in> set (transactions (processExcel h x))"
  then show "amount u \<noteq> Fin 0" by (rule excel_amount_nonzero)
qed

theorem C8_zero_row_witness:
  "parseAmount (js ''0.00'') = Some (Fin 0) \<and>
   csvRowTransactions (hostAt 0) (exampleRows ! 2) = [] \<and>
   amountWarning 3 (js ''0'') \<in> set (warnings (processCSV (hostAt 0) (PapaComplete exampleRows))) \<and>
   transactions (processCSV (hostAt 0) (PapaComplete exampleRows)) =
     transactions (processCSV (hostAt 0) (PapaComplete (take 2 exampleRows @ drop (Suc 2) exampleRows))) \<and>
   transactions (processExcel (hostAt 0) (Sheet exampleSheet)) =
     concat (map (excelRowTransactions (hostAt 0) (Some 0) (Some 1) (Some 2)) (tl exampleSheet)) \<and>
   excelRowTransactions (hostAt 0) (Some 0) (Some 1) (Some 2) (tl exampleSheet ! 2) = [] \<and>
   amountWarning 4 (js ''0'') \<in> set (warnings (processExcel (hostAt 0) (Sheet exampleSheet))) \<and>
   swiggy \<in> set (transactions (processCSV (hostAt 0) (PapaComplete exampleRows))) \<and>
   swiggy \<in> set (transactions (processExcel (hostAt 0) (Sheet exampleSheet))) \<and>
   amount swiggy \<noteq> Fin 0"
proof -
  let ?h = "hostAt 0"
  let ?C = "Some (0::nat)" let ?A = "Some (1::nat)" let ?D = "Some (2::nat)"
  have n: "(2::nat) + 1 = 3" "(2::nat) + 2 = 4" by simp_all
  have c: "cellString ?h (cellAt (tl exampleSheet ! 2) ?A) = js ''0''"
    "firstTruthy (exampleRows ! 2) amountColumns = js ''0''"
    using exampleSheet_nth exampleRows_nth by simp_all
  have s: "js ''0.00'' \<noteq> [] \<and> parseFloat (numericText (js ''0.00'')) = Fin 0"
    by (simp add: parseFloat_numericText_0_00) (simp add: js_def)
  have t: "swiggy \<in> set (transactions (processCSV ?h (PapaComplete exampleRows)))"
    by (simp add: processCSV_exampleRows)
  have u: "swiggy \<in> set (transactions (processExcel ?h (Sheet exampleSheet)))"
    by (simp add: processExcel_exampleSheet)
  have k: "2 < length exampleRows \<and> parseAmount (firstTruthy (exampleRows ! 2) amountColumns) = Some (Fin 0)"
    using exampleRows_nth by (simp add: parseAmount_0)
  have j: "2 \<le> length exampleSheet \<and> findColumn dateColumns (hd exampleSheet) 0 = Inr ?C \<and>
    findColumn amountColumns (hd exampleSheet) 0 = Inr ?A \<and>
    findColumn descColumns (hd exampleSheet) 0 = Inr ?D \<and>
    2 < length (tl exampleSheet) \<and> tl exampleSheet ! 2 \<noteq> [] \<and>
    parseAmountCell (cellAt (tl exampleSheet ! 2) ?A) = Some (Fin 0)"
    using exampleSheet_nth by (simp add: findColumn_exampleSheet parseAmount_0)
  have 1: "parseAmount (js ''0.00'') = Some (Fin 0)"
    by (rule C8_zero_amount_dropped_by_rows [where s = "js ''0.00''", THEN conjunct2, THEN conjunct1, THEN iffD2]) (rule s)
  have "csvRowTransactions ?h (exampleRows ! 2) = [] \<and>
      amountWarning (2 + 1) (firstTruthy (exampleRows ! 2) amountColumns)
        \<in> set (warnings (processCSV ?h (PapaComplete exampleRows))) \<and>
      transactions (processCSV ?h (PapaComplete exampleRows)) =
        transactions (processCSV ?h (PapaComplete (take 2 exampleRows @ drop (Suc 2) exampleRows)))"
    by (rule C8_zero_amount_dropped_by_rows [where h = ?h and rows = exampleRows and k = 2,
          THEN conjunct2, THEN conjunct2, THEN conjunct2, THEN conjunct2, THEN conjunct1, THEN mp]) (rule k)
  then have 2: "csvRowTransactions ?h (exampleRows ! 2) = [] \<and>
      amountWarning 3 (js ''0'') \<in> set (warnings (processCSV ?h (PapaComplete exampleRows))) \<and>
      transactions (processCSV ?h (PapaComplete exampleRows)) =
        transactions (processCSV ?h (PapaComplete (take 2 exampleRows @ drop (Suc 2) exampleRows)))"
    unfolding n c .
  have 3: "transactions (processExcel ?h (Sheet exampleSheet)) =
        concat (map (excelRowTransactions ?h ?C ?A ?D) (tl exampleSheet))"
    by (rule C8_zero_amount_dropped_by_rows [where h = ?h and jsonData = exampleSheet
          and dc = ?C and ac = ?A and sc = ?D, THEN conjunct2, THEN conjunct2, THEN conjunct2, THEN conjunct2, THEN conjunct2, THEN conjunct1, THEN mp]) (rule exampleSheet_columns)
  have "excelRowTransactions ?h ?C ?A ?D (tl exampleSheet ! 2) = [] \<and>
      amountWarning (2 + 2) (cellString ?h (cellAt (tl exampleSheet ! 2) ?A))
        \<in> set (warnings (processExcel ?h (Sheet exampleSheet))) \<and>
      transactions (processExcel ?h (Sheet exampleSheet)) =
        transactions (processExcel ?h
          (Sheet (hd exampleSheet # take 2 (tl exampleSheet) @ drop (Suc 2) (tl exampleSheet))))"
    by (rule C8_zero_amount_dropped_by_rows [where h = ?h and jsonData = exampleSheet
          and dc = ?C and ac = ?A and sc = ?D and j = 2, THEN conjunct2, THEN conjunct2, THEN conjunct2, THEN conjunct2, THEN conjunct2, THEN conjunct2, THEN conjunct1, THEN mp]) (rule j)
  then have 4: "excelRowTransactions ?h ?C ?A ?D (tl exampleSheet ! 2) = [] \<and>
      amountWarning 4 (js ''0'') \<in> set (warnings (processExcel ?h (Sheet exampleSheet)))"
    unfolding n c by blast
  have 5: "amount swiggy \<noteq> Fin 0"
    by (rule C8_zero_amount_dropped_by_rows [where h = ?h and rows = exampleRows and t = swiggy,
          THEN conjunct2, THEN conjunct2, THEN conjunct2, THEN conjunct2, THEN conjunct2, THEN conjunct2, THEN conjunct2, THEN conjunct1, THEN mp]) (rule t)
  have 6: "amount swiggy \<noteq> Fin 0"
    by (rule C8_zero_amount_dropped_by_rows [where h = ?h and x = "Sheet exampleSheet" and u = swiggy,
          THEN conjunct2, THEN conjunct2, THEN conjunct2, THEN conjunct2, THEN conjunct2, THEN conjunct2, THEN conjunct2, THEN conjunct2, THEN mp]) (rule u)
  from 1 2 3 4 5 6 t u show ?thesis by (intro conjI) blast+
qed

text \<open>
  C10. The description \<open> Swiggy Food Order\<close> with a space in front: its
  first white-space-separated token is \<open>Swiggy\<close>, and the merchant of the
  accepted row is \<open>Unknown\<close>, because \<open>split(' ')\<close> gives the empty string
  first.
\<close>

theorem C10_leading_space_gives_Unknown:
  "map merchant (transactions (processCSV (hostAt 0) (PapaComplete leadingSpaceRows))) = [js ''Unknown''] \<and>
   firstTruthy (hd leadingSpaceRows) descColumns = js '' Swiggy Food Order'' \<and>
   firstToken (js '' Swiggy Food Order'') = js ''Swiggy''"
  by (simp add: processCSV_leadingSpaceRows firstTruthy_leadingSpaceRows firstToken_leading_space)

text \<open>
  C10, as amended. The transactions of a CSV file, and of a sheet whose
  header was read, are what its rows add one after the other, and the
  merchant of a transaction is computed from the description of the row
  that added it, and from nothing else: it is the text of that description
  before its first space (U+0020), or \<open>Unknown\<close> when that text is empty,
  which is when the description is empty or starts with a space. It is the
  first white-space-separated token when the description is not empty, does
  not start with a space and has no white space other than spaces.
\<close>

theorem C10_merchant_is_text_before_first_space:
  "transactions (processCSV h (PapaComplete rows)) = concat (map (csvRowTransactions h) rows) \<and>
   (t \<in> set (csvRowTransactions h row) \<longrightarrow> merchant t = merchantOf (firstTruthy row descColumns)) \<and>
   (t \<in> set (transactions (processCSV h (PapaComplete rows))) \<longrightarrow>
      (\<exists>row \<in> set rows. t \<in> set (csvRowTransactions h row) \<and>
                         merchant t = merchantOf (firstTruthy row descColumns))) \<and>
   (2 \<le> length jsonData \<and> findColumn dateColumns (hd jsonData) 0 = Inr dc \<and>
    findColumn amountColumns (hd jsonData) 0 = Inr ac \<and>
    findColumn descColumns (hd jsonData) 0 = Inr sc \<longrightarrow>
      transactions (processExcel h (Sheet jsonData)) =
        concat (map (excelRowTransactions h dc ac sc) (tl jsonData))) \<and>
   (u \<in> set (excelRowTransactions h dc ac sc cells) \<longrightarrow>
      (\<exists>s. cellAt cells sc = Str s \<and> merchant u = merchantOf s)) \<and>
   (u \<in> set (transactions (processExcel h x)) \<longrightarrow>
      (\<exists>sheet dci aci sci r s. x = Sheet sheet \<and> 2 \<le> length sheet \<and>
          findColumn dateColumns (hd sheet) 0 = Inr dci \<and>
          findColumn amountColumns (hd sheet) 0 = Inr aci \<and>
          findColumn descColumns (hd sheet) 0 = Inr sci \<and>
          r \<in> set (tl sheet) \<and> u \<in> set (excelRowTransactions h dci aci sci r) \<and>
          cellAt r sci = Str s \<and> merchant u = merchantOf s)) \<and>
   merchantOf s = (if takeWhile (\<lambda>c. c \<noteq> 32) s = [] then js ''Unknown'' else takeWhile (\<lambda>c. c \<noteq> 32) s) \<and>
   ((\<forall>c \<in> set s. isSpace c \<longrightarrow> c = 32) \<and> s \<noteq> [] \<and> hd s \<noteq> 32 \<longrightarrow> merchantOf s = firstToken s)"
proof (intro conjI impI)
  show "transactions (processCSV h (PapaComplete rows)) = concat (map (csvRowTransactions h) rows)"
    by (rule processCSV_transactions)
next
  assume "t \<in> set (csvRowTransactions h row)"
  then show "merchant t = merchantOf (firstTruthy row descColumns)" by (rule csv_row_merchant)
next
  assume "t \<in> set (transactions (processCSV h (PapaComplete rows)))"
  from csv_transaction_of_row [OF this] obtain row where
    row: "row \<in> set rows" "t \<in> set (csvRowTransactions h row)" by blast
  with csv_row_merchant [OF row(2)]
  show "\<exists>row \<in> set rows. t \<in> set (csvRowTransactions h row) \<and>
                         merchant t = merchantOf (firstTruthy row descColumns)" by blast
next
  assume "2 \<le> length jsonData \<and> findColumn dateColumns (hd jsonData) 0 = Inr dc \<and>
    findColumn amountColumns (hd jsonData) 0 = Inr ac \<and>
    findColumn descColumns (hd jsonData) 0 = Inr sc"
  then show "transactions (processExcel h (Sheet jsonData)) =
        concat (map (excelRowTransactions h dc ac sc) (tl jsonData))"
    by (intro processExcel_sheet) simp_all
next
  assume "u \<in> set (excelRowTransactions h dc ac sc cells)"
  then show "\<exists>s. cellAt cells sc = Str s \<and> merchant u = merchantOf s" by (rule excel_row_merchant)
next
  assume "u \<in> set (transactions (processExcel h x))"
  from excel_transaction_of_row [OF this] obtain sheet dci aci sci r where
    x: "x = Sheet sheet" "2 \<le> length sheet"
      "findColumn dateColumns (hd sheet) 0 = Inr dci"
      "findColumn amountColumns (hd sheet) 0 = Inr aci"
      "findColumn descColumns (hd sheet) 0 = Inr sci"
      "r \<in> set (tl sheet)" and r: "u \<in> set (excelRowTransactions h dci aci sci r)" by blast
  from excel_row_merchant [OF r] obtain s where "cellAt r sci = Str s \<and> merchant u = merchantOf s"
    by blast
  with x r show "\<exists>sheet dci aci sci r s. x = Sheet sheet \<and> 2 \<le> length sheet \<and>
          findColumn dateColumns (hd sheet) 0 = Inr dci \<and>
          findColumn amountColumns (hd sheet) 0 = Inr aci \<and>
          findColumn descColumns (hd sheet) 0 = Inr sci \<and>
          r \<in> set (tl sheet) \<and> u \<in> set (excelRowTransactions h dci aci sci r) \<and>
          cellAt r sci = Str s \<and> merchant u = merchantOf s" by blast
next
  show "merchantOf s = (if takeWhile (\<lambda>c. c \<noteq> 32) s = [] then js ''Unknown'' else takeWhile (\<lambda>c. c \<noteq> 32) s)"
    by (rule merchantOf_takeWhile)
next
  assume "(\<forall>c \<in> set s. isSpace c \<longrightarrow> c = 32) \<and> s \<noteq> [] \<and> hd s \<noteq> 32"
  then show "merchantOf s = firstToken s" by (simp add: merchantOf_firstToken)
qed

theorem C10_merchant_witness:
  "swiggy \<in> set (transactions (processCSV (hostAt 0) (PapaComplete exampleRows))) \<and>
   swiggy \<in> set (transactions (processExcel (hostAt 0) (Sheet exampleSheet))) \<and>
   swiggy \<in> set (csvRowTransactions (hostAt 0) (exampleRows ! 0)) \<and>
   swiggy \<in> set (excelRowTransactions (hostAt 0) (Some 0) (Some 1) (Some 2) (tl exampleSheet ! 0)) \<and>
   firstTruthy (exampleRows ! 0) descColumns = js ''Swiggy Food Order'' \<and>
   cellAt (tl exampleSheet ! 0) (Some 2) = Str (js ''Swiggy Food Order'') \<and>
   merchant swiggy = merchantOf (js ''Swiggy Food Order'') \<and>
   (\<exists>row. row \<in> set exampleRows \<and> swiggy \<in> set (csvRowTransactions (hostAt 0) row) \<and>
          merchant swiggy = merchantOf (firstTruthy row descColumns)) \<and>
   (\<exists>r s. r \<in> set (tl exampleSheet) \<and> cellAt r (Some 2) = Str s \<and> merchant swiggy = merchantOf s) \<and>
   transactions (processExcel (hostAt 0) (Sheet exampleSheet)) =
     concat (map (excelRowTransactions (hostAt 0) (Some 0) (Some 1) (Some 2)) (tl exampleSheet)) \<and>
   merchantOf (js ''Swiggy Food Order'') = firstToken (js ''Swiggy Food Order'') \<and>
   merchantOf (js ''Swiggy Food Order'') = js ''Swiggy''"
proof -
  let ?h = "hostAt 0"
  let ?C = "Some (0::nat)" let ?A = "Some (1::nat)" let ?D = "Some (2::nat)"
  let ?s = "js ''Swiggy Food Order''"
  have t: "swiggy \<in> set (transactions (processCSV ?h (PapaComplete exampleRows)))"
    by (simp add: processCSV_exampleRows)
  have u: "swiggy \<in> set (transactions (processExcel ?h (Sheet exampleSheet)))"
    by (simp add: processExcel_exampleSheet)
  have t0: "swiggy \<in> set (csvRowTransactions ?h (exampleRows ! 0))"
    using exampleRows_first by simp
  have u0: "swiggy \<in> set (excelRowTransactions ?h ?C ?A ?D (tl exampleSheet ! 0))"
    using exampleSheet_first by simp
  have s: "(\<forall>c \<in> set ?s. isSpace c \<longrightarrow> c = 32) \<and> ?s \<noteq> [] \<and> hd ?s \<noteq> 32"
    by (simp add: str_ev)
  have "merchant swiggy = merchantOf (firstTruthy (exampleRows ! 0) descColumns)"
    by (rule C10_merchant_is_text_before_first_space [where h = ?h and t = swiggy and row = "exampleRows ! 0",
          THEN conjunct2, THEN conjunct1, THEN mp]) (rule t0)
  then have 1: "merchant swiggy = merchantOf ?s" unfolding exampleRows_description .
  have "\<exists>row \<in> set exampleRows. swiggy \<in> set (csvRowTransactions ?h row) \<and>
                         merchant swiggy = merchantOf (firstTruthy row descColumns)"
    by (rule C10_merchant_is_text_before_first_space [where h = ?h and t = swiggy and rows = exampleRows,
          THEN conjunct2, THEN conjunct2, THEN conjunct1, THEN mp]) (rule t)
  then have 2: "\<exists>row. row \<in> set exampleRows \<and> swiggy \<in> set (csvRowTransactions ?h row) \<and>
          merchant swiggy = merchantOf (firstTruthy row descColumns)" by blast
  have 3: "transactions (processExcel ?h (Sheet exampleSheet)) =
        concat (map (excelRowTransactions ?h ?C ?A ?D) (tl exampleSheet))"
    by (rule C10_merchant_is_text_before_first_space [where h = ?h and jsonData = exampleSheet
          and dc = ?C and ac = ?A and sc = ?D, THEN conjunct2, THEN conjunct2, THEN conjunct2, THEN conjunct1, THEN mp]) (rule exampleSheet_columns)
  have 4: "\<exists>s. cellAt (tl exampleSheet ! 0) ?D = Str s \<and> merchant swiggy = merchantOf s"
    by (rule C10_merchant_is_text_before_first_space [where h = ?h and u = swiggy
          and cells = "tl exampleSheet ! 0" and dc = ?C and ac = ?A and sc = ?D, THEN conjunct2, THEN conjunct2, THEN conjunct2, THEN conjunct2, THEN conjunct1, THEN mp]) (rule u0)
  have "\<exists>sheet dci aci sci r s. Sheet exampleSheet = Sheet sheet \<and> 2 \<le> length sheet \<and>
          findColumn dateColumns (hd sheet) 0 = Inr dci \<and>
          findColumn amountColumns (hd sheet) 0 = Inr aci \<and>
          findColumn descColumns (hd sheet) 0 = Inr sci \<and>
          r \<in> set (tl sheet) \<and> swiggy \<in> set (excelRowTransactions ?h dci aci sci r) \<and>
          cellAt r sci = Str s \<and> merchant swiggy = merchantOf s"
    by (rule C10_merchant_is_text_before_first_space [where h = ?h and u = swiggy
          and x = "Sheet exampleSheet", THEN conjunct2, THEN conjunct2, THEN conjunct2, THEN conjunct2, THEN conjunct2, THEN conjunct1, THEN mp]) (rule u)
  then obtain sheet sci r s' where o: "Sheet exampleSheet = Sheet sheet"
      "findColumn descColumns (hd sheet) 0 = Inr sci" "r \<in> set (tl sheet)"
      "cellAt r sci = Str s'" "merchant swiggy = merchantOf s'" by blast
  from o(1) have sh: "sheet = exampleSheet" by simp
  from o(2) sh findColumn_exampleSheet(3) have "sci = ?D" by simp
  with o sh have 5: "\<exists>r s. r \<in> set (tl exampleSheet) \<and> cellAt r ?D = Str s \<and> merchant swiggy = merchantOf s"
    by blast
  have 6: "merchantOf ?s = firstToken ?s"
    by (rule C10_merchant_is_text_before_first_space [where s = ?s, THEN conjunct2, THEN conjunct2, THEN conjunct2, THEN conjunct2, THEN conjunct2, THEN conjunct2, THEN conjunct2, THEN mp]) (rule s)
  from t u t0 u0 1 2 3 4 5 6 exampleRows_description merchantOf_Swiggy_Food_Order
  show ?thesis by (intro conjI) blast+
qed

end
